theory Spec2Isabelle
  imports Main "HOL-Library.AList" "HOL-Library.Char_ord" "HOL-Library.List_Lexorder"
begin

section \<open>Translation resolution and caching of parler/models.py\<close>

text \<open>
  The development embeds the resolution engine and the persistence coordinator of
  \<^verbatim>\<open>parler/models.py\<close>: \<^verbatim>\<open>_get_translated_model\<close>, \<^verbatim>\<open>has_translation\<close>,
  \<^verbatim>\<open>get_available_languages\<close>, \<^verbatim>\<open>save_translations\<close>, \<^verbatim>\<open>save_translation\<close>,
  \<^verbatim>\<open>save\<close>, \<^verbatim>\<open>delete\<close> of \<^verbatim>\<open>TranslatableModel\<close>, and \<^verbatim>\<open>is_modified\<close>,
  \<^verbatim>\<open>is_empty\<close>, \<^verbatim>\<open>save_base\<close> of \<^verbatim>\<open>TranslatedFieldsModel\<close>.

  Python objects are mutable and exceptions do not undo mutations, so every operation
  takes the model instance and the world around it and returns both again, next to a
  result or an error. The world holds the external collaborators: the shared cache, the
  translations table, and a trace of the calls made to them. Signals are notifications
  that take no part in the control flow and are left out; the database alias
  (\<^verbatim>\<open>_state.db\<close>) is left out as well, there being one table.
\<close>

subsection \<open>Translation records\<close>

text \<open>
  The values of the model fields of a translation, as \<^verbatim>\<open>_get_field_values\<close> lists
  them: the primary key, the language code, the owner's key and the translated fields.
\<close>

type_synonym field_values = "nat option \<times> string \<times> nat option \<times> string list"

text \<open>
  An instance of the translated-fields model. \<open>oid\<close> is the identity of the Python
  object (what \<^verbatim>\<open>is\<close> compares); \<open>original_values\<close> is \<^verbatim>\<open>_original_values\<close>.
\<close>

record translation =
  oid :: nat
  t_pk :: "nat option"
  language_code :: string
  master_id :: "nat option"
  translated_values :: "string list"
  original_values :: field_values

definition get_field_values :: "translation \<Rightarrow> field_values" where
  "get_field_values t = (t_pk t, language_code t, master_id t, translated_values t)"

text \<open>
  \<^verbatim>\<open>TranslatedFieldsModel.__init__\<close>: the attributes are set from the arguments and
  the snapshot \<^verbatim>\<open>_original_values\<close> is taken at once.
\<close>

definition init_translation :: "nat \<Rightarrow> field_values \<Rightarrow> translation" where
  "init_translation n v =
     (case v of (i, l, m, fs) \<Rightarrow>
        \<lparr>oid = n, t_pk = i, language_code = l, master_id = m, translated_values = fs,
         original_values = (i, l, m, fs)\<rparr>)"

definition is_modified :: "translation \<Rightarrow> bool" where
  "is_modified t = (original_values t \<noteq> get_field_values t)"

text \<open>Python truthiness of an integer attribute that may be \<^verbatim>\<open>None\<close>:
  \<^verbatim>\<open>not x\<close> holds for \<^verbatim>\<open>None\<close> and for \<^verbatim>\<open>0\<close>.\<close>

definition py_not :: "nat option \<Rightarrow> bool" where
  "py_not x = (case x of None \<Rightarrow> True | Some n \<Rightarrow> n = 0)"

text \<open>Python truthiness of a string that may be \<^verbatim>\<open>None\<close>.\<close>

definition py_not_str :: "string option \<Rightarrow> bool" where
  "py_not_str x = (case x of None \<Rightarrow> True | Some l \<Rightarrow> l = [])"

subsection \<open>Configuration\<close>

text \<open>
  The class attributes of the translatable model and the language settings.
  \<open>translations_model\<close> is \<^verbatim>\<open>_translations_model\<close>: \<open>None\<close> when no
  translations model is assigned, otherwise the class, given by the names of its
  translated fields (\<^verbatim>\<open>get_translated_fields\<close>). \<open>translations_field\<close> is
  \<^verbatim>\<open>_translations_field\<close>. \<open>fallback l\<close> is
  \<^verbatim>\<open>get_language_settings(l)['fallback']\<close>, a table of \<^verbatim>\<open>parler.utils.i18n\<close> that
  is taken as a parameter.
\<close>

record config =
  translations_model :: "string list option"
  translations_field :: "string option"
  fallback :: "string \<Rightarrow> string"

definition get_translated_fields :: "config \<Rightarrow> string list" where
  "get_translated_fields c = (case translations_model c of None \<Rightarrow> [] | Some fs \<Rightarrow> fs)"

text \<open>\<^verbatim>\<open>is_empty\<close>: the class declares no translated field.\<close>

definition is_empty :: "config \<Rightarrow> bool" where
  "is_empty c = (length (get_translated_fields c) = 0)"

text \<open>The check that opens \<^verbatim>\<open>_get_translated_model\<close> passes.\<close>

definition configured :: "config \<Rightarrow> bool" where
  "configured c = (\<not> (translations_model c = None \<or> py_not_str (translations_field c)))"

subsection \<open>The model instance and the world\<close>

datatype error =
    ImproperlyConfigured
  | DoesNotExist string "string option"
  | IntegrityError
  | AttributeError
  | AssertionError

text \<open>
  \<open>DoesNotExist l f\<close> is the exception of lines 291-294 for language \<open>l\<close>; \<open>f\<close> is the
  fallback that was tried, if one was.
\<close>

text \<open>A row of the translations table.\<close>

record row =
  row_id :: nat
  row_language_code :: string
  row_master_id :: "nat option"
  row_fields :: "string list"

text \<open>Calls to the external collaborators, newest first in the trace.\<close>

datatype event =
    CacheGet "nat option" string
  | CacheSet "nat option" string
  | CacheDelete "nat option"
  | DbGet "nat option" string
  | DbSave "nat option" string
  | DbList "nat option"
  | DbDelete "nat option"

text \<open>
  A \<^verbatim>\<open>TranslatableModel\<close> instance: its key, \<^verbatim>\<open>_state.adding\<close>,
  \<^verbatim>\<open>_current_language\<close> and \<^verbatim>\<open>_translations_cache\<close>. The cache is a dict from a
  language code to a translation or to \<^verbatim>\<open>None\<close> (the marker of line 284); it is an
  association list, read with \<open>map_of\<close> and written with \<open>AList.update\<close>, iterated in
  list order. The instance cache is the only holder of the translation objects it
  returns, so the objects are kept in it by value.
\<close>

record translatable =
  pk :: "nat option"
  adding :: bool
  current_language :: string
  translations_cache :: "(string \<times> translation option) list"

record world =
  shared_cache :: "nat option \<times> string \<Rightarrow> field_values option"
  rows :: "row list"
  next_oid :: nat
  trace :: "event list"

subsection \<open>The shared cache\<close>

text \<open>
  Modelled from the spec: \<^verbatim>\<open>parler.cache.get_cached_translation\<close> is not among the
  sources. The shared cache maps (record type, record identity, language code) to a
  serialized snapshot of a translation record; there is one record type here. A hit
  builds a new object from the snapshot; a miss, an expired entry and an absence marker
  all give \<^verbatim>\<open>None\<close>.
\<close>

definition get_cached_translation ::
  "translatable \<Rightarrow> string \<Rightarrow> world \<Rightarrow> translation option \<times> world" where
  "get_cached_translation self lc w =
     (let w1 = w\<lparr>trace := CacheGet (pk self) lc # trace w\<rparr> in
      case shared_cache w (pk self, lc) of
        None \<Rightarrow> (None, w1)
      | Some v \<Rightarrow> (Some (init_translation (next_oid w) v), w1\<lparr>next_oid := Suc (next_oid w)\<rparr>))"

text \<open>
  Modelled from the spec: \<^verbatim>\<open>parler.cache._cache_translation\<close> is not among the
  sources. It sets the entry of (owner identity, language) to the snapshot of the
  translation.
\<close>

definition cache_translation :: "translation \<Rightarrow> world \<Rightarrow> world" where
  "cache_translation t w =
     w\<lparr>shared_cache := (shared_cache w)((master_id t, language_code t) \<mapsto> get_field_values t),
       trace := CacheSet (master_id t) (language_code t) # trace w\<rparr>"


subsection \<open>The translations table\<close>

text \<open>
  The table is the framework's. A query by owner compares keys as SQL does, so an owner
  without a key matches no row. The table is declared unique in (language code, owner)
  (line 63), so a lookup by owner and language has at most one answer: the first match.
\<close>

definition db_filter :: "nat option \<Rightarrow> row list \<Rightarrow> row list" where
  "db_filter m rs =
     (case m of None \<Rightarrow> [] | Some p \<Rightarrow> filter (\<lambda>r. row_master_id r = Some p) rs)"

definition db_get :: "nat option \<Rightarrow> string \<Rightarrow> row list \<Rightarrow> row option" where
  "db_get m lc rs = find (\<lambda>r. row_language_code r = lc) (db_filter m rs)"

definition row_values :: "row \<Rightarrow> field_values" where
  "row_values r = (Some (row_id r), row_language_code r, row_master_id r, row_fields r)"

text \<open>
  \<^verbatim>\<open>accessor.get(language_code=language_code)\<close> of line 255; \<open>None\<close> stands for the
  \<^verbatim>\<open>DoesNotExist\<close> that line 256 catches.
\<close>

definition accessor_get ::
  "translatable \<Rightarrow> string \<Rightarrow> world \<Rightarrow> translation option \<times> world" where
  "accessor_get self lc w =
     (let w1 = w\<lparr>trace := DbGet (pk self) lc # trace w\<rparr> in
      case db_get (pk self) lc (rows w) of
        None \<Rightarrow> (None, w1)
      | Some r \<Rightarrow>
          (Some (init_translation (next_oid w) (row_values r)), w1\<lparr>next_oid := Suc (next_oid w)\<rparr>))"

text \<open>
  The write of the framework's \<^verbatim>\<open>save_base\<close>: a translation with the key of an
  existing row updates it, any other is inserted, with a new key above every key of
  the table when it has none. A second row for the same owner and language is refused.
\<close>

definition new_id :: "row list \<Rightarrow> nat" where
  "new_id rs = Suc (fold max (map row_id rs) 0)"

definition db_write :: "translation \<Rightarrow> row list \<Rightarrow> error + nat \<times> row list" where
  "db_write t rs =
     (let i = (case t_pk t of None \<Rightarrow> new_id rs | Some j \<Rightarrow> j);
          r = \<lparr>row_id = i, row_language_code = language_code t,
               row_master_id = master_id t, row_fields = translated_values t\<rparr>
      in if list_ex (\<lambda>r'. row_id r' \<noteq> i \<and> master_id t \<noteq> None \<and>
                          row_master_id r' = master_id t \<and>
                          row_language_code r' = language_code t) rs
         then Inl IntegrityError
         else if list_ex (\<lambda>r'. row_id r' = i) rs
         then Inr (i, map (\<lambda>r'. if row_id r' = i then r else r') rs)
         else Inr (i, rs @ [r]))"

subsection \<open>Resolution\<close>

text \<open>Line 230-231: the language defaults to the current one.\<close>

definition requested_language :: "translatable \<Rightarrow> string option \<Rightarrow> string" where
  "requested_language self lang =
     (case lang of
        None \<Rightarrow> current_language self
      | Some l \<Rightarrow> if l = [] then current_language self else l)"

text \<open>\<^verbatim>\<open>self._translations_cache[language_code] = object\<close>.\<close>

definition cache_put :: "string \<Rightarrow> translation option \<Rightarrow> translatable \<Rightarrow> translatable" where
  "cache_put lc obj self =
     self\<lparr>translations_cache := AList.update lc obj (translations_cache self)\<rparr>"

text \<open>
  Lines 233-261, steps 1 and 2 of \<^verbatim>\<open>_get_translated_model\<close>. The result is the object
  that the function returns there, or \<open>None\<close> when control reaches line 263. A marker in
  the instance cache raises no \<^verbatim>\<open>KeyError\<close>, so step 2 is not entered.
\<close>

definition cache_lookup ::
  "translatable \<Rightarrow> string \<Rightarrow> world \<Rightarrow> translation option \<times> translatable \<times> world" where
  "cache_lookup self lc w =
     (case map_of (translations_cache self) lc of
        Some (Some obj) \<Rightarrow> (Some obj, self, w)
      | Some None \<Rightarrow> (None, self, w)
      | None \<Rightarrow>
          if \<not> adding self then
            (case get_cached_translation self lc w of
               (Some obj, w1) \<Rightarrow> (Some obj, cache_put lc (Some obj) self, w1)
             | (None, w1) \<Rightarrow>
                 (case accessor_get self lc w1 of
                    (None, w2) \<Rightarrow> (None, self, w2)
                  | (Some obj, w2) \<Rightarrow>
                      (Some obj, cache_put lc (Some obj) self, cache_translation obj w2)))
          else (None, self, w))"

text \<open>Lines 269-272: the new translation of step 3, every translated field empty.\<close>

definition create_translation :: "config \<Rightarrow> translatable \<Rightarrow> string \<Rightarrow> world \<Rightarrow> translation" where
  "create_translation c self lc w =
     init_translation (next_oid w)
       (None, lc, pk self, map (\<lambda>_. []) (get_translated_fields c))"

text \<open>
  \<^verbatim>\<open>_get_translated_model\<close>, lines 223-294. The only recursive call is the fallback
  of line 286, which passes \<^verbatim>\<open>use_fallback=False\<close>.
\<close>

function get_translated_model ::
  "config \<Rightarrow> translatable \<Rightarrow> string option \<Rightarrow> bool \<Rightarrow> bool \<Rightarrow> world
     \<Rightarrow> (error + translation) \<times> translatable \<times> world" where
  "get_translated_model c self lang use_fallback auto_create w =
     (if translations_model c = None \<or> py_not_str (translations_field c)
      then (Inl ImproperlyConfigured, self, w)
      else
        let lc = requested_language self lang in
        case cache_lookup self lc w of
          (Some obj, self1, w1) \<Rightarrow> (Inr obj, self1, w1)
        | (None, self1, w1) \<Rightarrow>
            if auto_create then
              (let obj = create_translation c self1 lc w1
               in (Inr obj, cache_put lc (Some obj) self1, w1\<lparr>next_oid := Suc (next_oid w1)\<rparr>))
            else
              if use_fallback \<and> fallback c lc \<noteq> lc then
                (case get_translated_model c (cache_put lc None self1) (Some (fallback c lc))
                        False auto_create w1 of
                   (Inl (DoesNotExist l f), self2, w2) \<Rightarrow>
                     (Inl (DoesNotExist lc (Some (fallback c lc))), self2, w2)
                 | (r, self2, w2) \<Rightarrow> (r, self2, w2))
              else (Inl (DoesNotExist lc None), self1, w1))"
  by pat_completeness auto
termination
  by (relation "measure (\<lambda>(c, self, l, use_fallback, auto_create, w). if use_fallback then 1 else 0)")
     auto

declare get_translated_model.simps [simp del]

text \<open>
  \<^verbatim>\<open>has_translation\<close>, lines 194-213. The \<^verbatim>\<open>except\<close> clause of line 210 reads
  \<^verbatim>\<open>self._translations_model.DoesNotExist\<close>, which fails on a model without a
  translations model.
\<close>

definition has_translation ::
  "config \<Rightarrow> translatable \<Rightarrow> string option \<Rightarrow> world \<Rightarrow> (error + bool) \<times> translatable \<times> world" where
  "has_translation c self lang w =
     (let lc = (case lang of None \<Rightarrow> current_language self | Some l \<Rightarrow> l) in
      case map_of (translations_cache self) lc of
        Some entry \<Rightarrow> (Inr (entry \<noteq> None), self, w)
      | None \<Rightarrow>
          (case get_translated_model c self (Some lc) False False w of
             (Inr obj, self1, w1) \<Rightarrow> (Inr True, self1, w1)
           | (Inl e, self1, w1) \<Rightarrow>
               if translations_model c = None then (Inl AttributeError, self1, w1)
               else (case e of
                       DoesNotExist l f \<Rightarrow> (Inr False, self1, w1)
                     | _ \<Rightarrow> (Inl e, self1, w1))))"

text \<open>
  \<^verbatim>\<open>get_available_languages\<close>, line 220, with the query evaluated: the language
  codes of the rows of this owner, ordered by code.
\<close>

definition get_available_languages ::
  "config \<Rightarrow> translatable \<Rightarrow> world \<Rightarrow> (error + string list) \<times> world" where
  "get_available_languages c self w =
     (if translations_model c = None then (Inl AttributeError, w)
      else (Inr (sort (map row_language_code (db_filter (pk self) (rows w)))),
            w\<lparr>trace := DbList (pk self) # trace w\<rparr>))"

subsection \<open>Persistence\<close>

text \<open>
  \<^verbatim>\<open>TranslatedFieldsModel.save_base\<close>, lines 460-480: the write, then the new
  snapshot, then the shared cache. The framework's write sets the key of the object.
\<close>

definition save_base :: "translation \<Rightarrow> world \<Rightarrow> error option \<times> translation \<times> world" where
  "save_base t w =
     (let w1 = w\<lparr>trace := DbSave (master_id t) (language_code t) # trace w\<rparr> in
      case db_write t (rows w) of
        Inl e \<Rightarrow> (Some e, t, w1)
      | Inr (i, rs) \<Rightarrow>
          (let t1 = t\<lparr>t_pk := Some i\<rparr>;
               t2 = t1\<lparr>original_values := get_field_values t1\<rparr>
           in (None, t2, cache_translation t2 (w1\<lparr>rows := rs\<rparr>))))"

text \<open>\<^verbatim>\<open>save_translation\<close>, lines 342-350.\<close>

definition save_translation ::
  "config \<Rightarrow> translatable \<Rightarrow> translation \<Rightarrow> world \<Rightarrow> error option \<times> translation \<times> world" where
  "save_translation c self t w =
     (if is_modified t \<or> (is_empty c \<and> py_not (t_pk t)) then
        (let t1 = (if py_not (master_id t) then t\<lparr>master_id := pk self\<rparr> else t)
         in save_base t1 w)
      else (None, t, w))"

text \<open>
  The loop of \<^verbatim>\<open>save_translations\<close>, lines 335-339, over the entries of the instance
  cache; it returns the entries with their objects as the saves left them, and stops at
  the first error.
\<close>

fun save_entries ::
  "config \<Rightarrow> translatable \<Rightarrow> (string \<times> translation option) list \<Rightarrow> world
     \<Rightarrow> error option \<times> (string \<times> translation option) list \<times> world" where
  "save_entries c self [] w = (None, [], w)"
| "save_entries c self ((l, None) # es) w =
     (case save_entries c self es w of (e, es', w') \<Rightarrow> (e, (l, None) # es', w'))"
| "save_entries c self ((l, Some t) # es) w =
     (case save_translation c self t w of
        (Some e, t', w1) \<Rightarrow> (Some e, (l, Some t') # es, w1)
      | (None, t', w1) \<Rightarrow>
          (case save_entries c self es w1 of (e, es', w') \<Rightarrow> (e, (l, Some t') # es', w')))"

definition save_translations ::
  "config \<Rightarrow> translatable \<Rightarrow> world \<Rightarrow> error option \<times> translatable \<times> world" where
  "save_translations c self w =
     (case save_entries c self (translations_cache self) w of
        (e, es, w') \<Rightarrow> (e, self\<lparr>translations_cache := es\<rparr>, w'))"

text \<open>
  The framework's \<^verbatim>\<open>Model.save\<close> of the base record: a record without a key gets
  one, and the record is no longer new. \<open>fresh\<close> is the key the base table hands out.
\<close>

definition model_save :: "nat \<Rightarrow> translatable \<Rightarrow> translatable" where
  "model_save fresh self =
     self\<lparr>pk := (case pk self of None \<Rightarrow> Some fresh | Some p \<Rightarrow> Some p), adding := False\<rparr>"

text \<open>\<^verbatim>\<open>save\<close>, lines 322-324.\<close>

definition save ::
  "config \<Rightarrow> nat \<Rightarrow> translatable \<Rightarrow> world \<Rightarrow> error option \<times> translatable \<times> world" where
  "save c fresh self w = save_translations c (model_save fresh self) w"



text \<open>
  Modelled from the spec: the proxy attribute layer (\<^verbatim>\<open>parler.fields\<close>) is not among
  the sources. A write of the \<open>n\<close>-th translated field resolves the current language
  with \<^verbatim>\<open>auto_create\<close> and assigns the attribute on the translation returned, which
  is the object the instance cache holds.
\<close>

definition set_translated_field ::
  "config \<Rightarrow> translatable \<Rightarrow> nat \<Rightarrow> string \<Rightarrow> world \<Rightarrow> error option \<times> translatable \<times> world" where
  "set_translated_field c self n v w =
     (case get_translated_model c self None False True w of
        (Inl e, self1, w1) \<Rightarrow> (Some e, self1, w1)
      | (Inr obj, self1, w1) \<Rightarrow>
          (None,
           self1\<lparr>translations_cache :=
             map (\<lambda>(l, e). (l, case e of
                                 None \<Rightarrow> None
                               | Some t \<Rightarrow> if oid t = oid obj
                                           then Some (t\<lparr>translated_values := (translated_values t)[n := v]\<rparr>)
                                           else Some t))
                 (translations_cache self1)\<rparr>,
           w1))"

subsection \<open>A concrete configuration\<close>

text \<open>
  The languages of the scenario of the specification: French and German fall back to
  English, English to itself (no fallback). The translations model has the one
  translated field \<open>title\<close>.
\<close>

definition scenario_config :: config where
  "scenario_config =
     \<lparr>translations_model = Some [''title''], translations_field = Some ''translations'',
      fallback = (\<lambda>l. if l = ''fr'' \<or> l = ''de'' then ''en'' else l)\<rparr>"

text \<open>A record that was just constructed, and a world with an empty table and cache.\<close>

definition new_record :: translatable where
  "new_record = \<lparr>pk = None, adding = True, current_language = ''en'', translations_cache = []\<rparr>"

definition empty_world :: world where
  "empty_world = \<lparr>shared_cache = (\<lambda>k. None), rows = [], next_oid = 0, trace = []\<rparr>"

text \<open>
  A stored record with rows of two owners: French and English for the record with key
  1, German for the record with key 2.
\<close>

definition stored_world :: world where
  "stored_world =
     \<lparr>shared_cache = (\<lambda>k. None),
      rows = [\<lparr>row_id = 1, row_language_code = ''fr'', row_master_id = Some 1,
                row_fields = [''Bonjour'']\<rparr>,
              \<lparr>row_id = 2, row_language_code = ''de'', row_master_id = Some 2,
                row_fields = [''Hallo'']\<rparr>,
              \<lparr>row_id = 3, row_language_code = ''en'', row_master_id = Some 1,
                row_fields = [''Hello'']\<rparr>],
      next_oid = 0, trace = []\<rparr>"

definition stored_record :: translatable where
  "stored_record =
     \<lparr>pk = Some 1, adding = False, current_language = ''en'', translations_cache = []\<rparr>"

subsection \<open>Consistency of the caches\<close>

text \<open>
  Every translation in the instance cache is held under its own language code, and
  every snapshot in the shared cache is stored under its own language code. The code
  keeps both: it only ever stores a translation under the language it was created,
  loaded or saved for.
\<close>

definition cache_keyed :: "translatable \<Rightarrow> bool" where
  "cache_keyed self =
     list_all (\<lambda>(l, e). case e of None \<Rightarrow> True | Some t \<Rightarrow> language_code t = l)
       (translations_cache self)"

definition shared_keyed :: "world \<Rightarrow> bool" where
  "shared_keyed w = (\<forall>m l v. shared_cache w (m, l) = Some v \<longrightarrow> fst (snd v) = l)"

subsection \<open>Reading the trace\<close>

text \<open>The writes to the table and to the shared cache that a trace records, newest first,
  each by owner and language.\<close>

fun db_saves :: "event list \<Rightarrow> (nat option \<times> string) list" where
  "db_saves [] = []"
| "db_saves (DbSave m l # es) = (m, l) # db_saves es"
| "db_saves (e # es) = db_saves es"

fun cache_sets :: "event list \<Rightarrow> (nat option \<times> string) list" where
  "cache_sets [] = []"
| "cache_sets (CacheSet m l # es) = (m, l) # cache_sets es"
| "cache_sets (e # es) = cache_sets es"

text \<open>A model without translated fields, whose translations only mark that a language
  exists.\<close>

definition placeholder_config :: config where
  "placeholder_config =
     \<lparr>translations_model = Some [], translations_field = Some ''translations'',
      fallback = (\<lambda>l. l)\<rparr>"

text \<open>A German translation that was created in memory for the stored record, given a
  title, and not saved yet.\<close>

definition german_draft :: translation where
  "german_draft =
     \<lparr>oid = 7, t_pk = None, language_code = ''de'', master_id = None,
      translated_values = [''Hallo Welt''], original_values = (None, ''de'', None, [[]])\<rparr>"

subsection \<open>What a save has to write\<close>

text \<open>The translations that the instance cache holds, in its order, markers left out.\<close>

definition cached_translations :: "(string \<times> translation option) list \<Rightarrow> translation list" where
  "cached_translations es = List.map_filter snd es"

text \<open>The condition of line 346.\<close>

definition needs_save :: "config \<Rightarrow> translation \<Rightarrow> bool" where
  "needs_save c t = (is_modified t \<or> (is_empty c \<and> py_not (t_pk t)))"

text \<open>The owner and language under which \<^verbatim>\<open>save_translation\<close> writes a translation
  (lines 347-349).\<close>

definition written_as :: "translatable \<Rightarrow> translation \<Rightarrow> nat option \<times> string" where
  "written_as self t = (if py_not (master_id t) then pk self else master_id t, language_code t)"

text \<open>A record with an English and a French translation, both created in memory and
  given a title, none saved.\<close>

definition two_drafts :: translatable where
  "two_drafts =
     \<lparr>pk = None, adding = True, current_language = ''en'',
      translations_cache =
        [(''en'', Some \<lparr>oid = 0, t_pk = None, language_code = ''en'', master_id = None,
                        translated_values = [''Hello''],
                        original_values = (None, ''en'', None, [[]])\<rparr>),
         (''de'', None),
         (''fr'', Some \<lparr>oid = 1, t_pk = None, language_code = ''fr'', master_id = None,
                        translated_values = [''Bonjour''],
                        original_values = (None, ''fr'', None, [[]])\<rparr>)]\<rparr>"

subsection \<open>The scenario of the specification\<close>

text \<open>
  A record is created, its title is set to Hello under English, and it is saved (the base
  table hands out the key 1). Then German is resolved with fallback.
\<close>

definition scenario_saved :: "error option \<times> translatable \<times> world" where
  "scenario_saved =
     (case set_translated_field scenario_config new_record 0 ''Hello'' empty_world of
        (e, r1, w1) \<Rightarrow> save scenario_config 1 r1 w1)"

definition scenario_resolved :: "(error + translation) \<times> translatable \<times> world" where
  "scenario_resolved =
     (case scenario_saved of
        (e, r2, w2) \<Rightarrow> get_translated_model scenario_config r2 (Some ''de'') True False w2)"

text \<open>The English translation of the scenario as the save left it.\<close>

definition english_saved :: translation where
  "english_saved =
     \<lparr>oid = 0, t_pk = Some 1, language_code = ''en'', master_id = Some 1,
      translated_values = [''Hello''],
      original_values = (Some 1, ''en'', Some 1, [''Hello''])\<rparr>"

definition saved_world :: world where
  "saved_world =
     \<lparr>shared_cache = (\<lambda>k. None)((Some 1, ''en'') \<mapsto> (Some 1, ''en'', Some 1, [''Hello''])),
      rows = [\<lparr>row_id = 1, row_language_code = ''en'', row_master_id = Some 1,
                row_fields = [''Hello'']\<rparr>],
      next_oid = 1,
      trace = [CacheSet (Some 1) ''en'', DbSave (Some 1) ''en'']\<rparr>"


definition drafting_record :: translatable where
  "drafting_record =
     \<lparr>pk = Some 1, adding = False, current_language = ''en'',
      translations_cache = [(''de'', Some german_draft)]\<rparr>"

text \<open>A chain of fallbacks: Italian falls back to German, and German to English.\<close>

definition chain_config :: config where
  "chain_config =
     \<lparr>translations_model = Some [''title''], translations_field = Some ''translations'',
      fallback = (\<lambda>l. if l = ''it'' then ''de'' else if l = ''de'' then ''en'' else l)\<rparr>"

text \<open>The same languages with the second link of the chain cut: German has no fallback.\<close>

definition cut_config :: config where
  "cut_config =
     \<lparr>translations_model = Some [''title''], translations_field = Some ''translations'',
      fallback = (\<lambda>l. if l = ''it'' then ''de'' else l)\<rparr>"

text \<open>
  A table of the model without translated fields whose only row, the English placeholder
  of the record with key 1, has the key 0; the translation as it is loaded from that
  row; and the record with key 1 holding that translation after its language code was
  changed to French.
\<close>

definition zero_row :: row where
  "zero_row = \<lparr>row_id = 0, row_language_code = ''en'', row_master_id = Some 1, row_fields = []\<rparr>"

definition zero_world :: world where
  "zero_world = \<lparr>shared_cache = (\<lambda>k. None), rows = [zero_row], next_oid = 1, trace = []\<rparr>"

definition zero_keyed :: translation where
  "zero_keyed = init_translation 0 (row_values zero_row)"

definition relabelled_record :: translatable where
  "relabelled_record =
     \<lparr>pk = Some 1, adding = False, current_language = ''en'',
      translations_cache = [(''en'', Some (zero_keyed\<lparr>language_code := ''fr''\<rparr>))]\<rparr>"

section \<open>Properties\<close>

subsection \<open>Equations of the resolution\<close>

text \<open>Without fallback the function does not call itself.\<close>

lemma gtm_nofb:
  "get_translated_model c self lang False auto_create w =
     (if translations_model c = None \<or> py_not_str (translations_field c)
      then (Inl ImproperlyConfigured, self, w)
      else
        let lc = requested_language self lang in
        case cache_lookup self lc w of
          (Some obj, self1, w1) \<Rightarrow> (Inr obj, self1, w1)
        | (None, self1, w1) \<Rightarrow>
            if auto_create then
              (let obj = create_translation c self1 lc w1
               in (Inr obj, cache_put lc (Some obj) self1, w1\<lparr>next_oid := Suc (next_oid w1)\<rparr>))
            else (Inl (DoesNotExist lc None), self1, w1))"
  by (subst get_translated_model.simps) (simp add: Let_def split: prod.split option.split)

text \<open>With \<^verbatim>\<open>auto_create\<close> the fallback of line 281 is never reached.\<close>

lemma gtm_auto:
  "get_translated_model c self lang fb True w =
     (if translations_model c = None \<or> py_not_str (translations_field c)
      then (Inl ImproperlyConfigured, self, w)
      else
        let lc = requested_language self lang in
        case cache_lookup self lc w of
          (Some obj, self1, w1) \<Rightarrow> (Inr obj, self1, w1)
        | (None, self1, w1) \<Rightarrow>
              (let obj = create_translation c self1 lc w1
               in (Inr obj, cache_put lc (Some obj) self1, w1\<lparr>next_oid := Suc (next_oid w1)\<rparr>)))"
  by (subst get_translated_model.simps) (simp add: Let_def split: prod.split option.split)

lemma map_of_cache_put:
  "map_of (translations_cache (cache_put lc e self)) k =
     (if k = lc then Some e else map_of (translations_cache self) k)"
  by (simp add: cache_put_def update_conv')

lemma cache_put_sel [simp]:
  "pk (cache_put lc e self) = pk self"
  "adding (cache_put lc e self) = adding self"
  "current_language (cache_put lc e self) = current_language self"
  by (simp_all add: cache_put_def)

lemma requested_language_frame:
  "current_language self1 = current_language self \<Longrightarrow>
   requested_language self1 lang = requested_language self lang"
  by (simp add: requested_language_def split: option.split)

lemma cache_lookup_hit:
  "map_of (translations_cache self) lc = Some (Some obj) \<Longrightarrow>
   cache_lookup self lc w = (Some obj, self, w)"
  by (simp add: cache_lookup_def)

lemma cache_lookup_marker:
  "map_of (translations_cache self) lc = Some None \<Longrightarrow> cache_lookup self lc w = (None, self, w)"
  by (simp add: cache_lookup_def)

lemma cache_lookup_Some:
  assumes "cache_lookup self lc w = (Some obj, self1, w1)"
  shows "map_of (translations_cache self1) lc = Some (Some obj)"
  using assms
  by (auto simp: cache_lookup_def get_cached_translation_def accessor_get_def Let_def
                 map_of_cache_put
           split: option.splits if_splits prod.splits)

lemma cache_lookup_None:
  assumes "cache_lookup self lc w = (None, self1, w1)"
  shows "self1 = self \<and> shared_cache w1 = shared_cache w \<and> rows w1 = rows w \<and>
         next_oid w1 = next_oid w"
  using assms
  by (auto simp: cache_lookup_def get_cached_translation_def accessor_get_def Let_def
           split: option.splits if_splits prod.splits)

lemma cache_lookup_frame:
  assumes "cache_lookup self lc w = (r, self1, w1)"
  shows "pk self1 = pk self \<and> adding self1 = adding self \<and>
         current_language self1 = current_language self \<and> rows w1 = rows w"
  using assms
  by (auto simp: cache_lookup_def get_cached_translation_def accessor_get_def Let_def
                 cache_translation_def
           split: option.splits if_splits prod.splits)

lemma gtm_fb:
  "get_translated_model c self lang True False w =
     (if translations_model c = None \<or> py_not_str (translations_field c)
      then (Inl ImproperlyConfigured, self, w)
      else
        let lc = requested_language self lang in
        case cache_lookup self lc w of
          (Some obj, self1, w1) \<Rightarrow> (Inr obj, self1, w1)
        | (None, self1, w1) \<Rightarrow>
            if fallback c lc \<noteq> lc then
              (case get_translated_model c (cache_put lc None self1) (Some (fallback c lc))
                      False False w1 of
                 (Inl (DoesNotExist l f), self2, w2) \<Rightarrow>
                   (Inl (DoesNotExist lc (Some (fallback c lc))), self2, w2)
               | (r, self2, w2) \<Rightarrow> (r, self2, w2))
            else (Inl (DoesNotExist lc None), self1, w1))"
  by (subst get_translated_model.simps) (simp add: Let_def split: prod.split option.split)

lemma init_translation_sel [simp]:
  "language_code (init_translation n (i, l, m, fs)) = l"
  "t_pk (init_translation n (i, l, m, fs)) = i"
  "oid (init_translation n (i, l, m, fs)) = n"
  "master_id (init_translation n (i, l, m, fs)) = m"
  "translated_values (init_translation n (i, l, m, fs)) = fs"
  "original_values (init_translation n (i, l, m, fs)) = (i, l, m, fs)"
  by (simp_all add: init_translation_def)

lemma db_get_language: "db_get m lc rs = Some r \<Longrightarrow> row_language_code r = lc"
  by (auto simp: db_get_def find_Some_iff)

lemma db_get_None_iff:
  "db_get m l rs = None \<longleftrightarrow> l \<notin> row_language_code ` set (db_filter m rs)"
  by (auto simp: db_get_def find_None_iff)

lemma cache_keyed_map_of:
  "cache_keyed self \<Longrightarrow> map_of (translations_cache self) l = Some (Some t) \<Longrightarrow>
   language_code t = l"
  by (auto simp: cache_keyed_def list_all_iff dest!: map_of_SomeD)

lemma cache_lookup_cases:
  assumes "cache_lookup self lc w = (r, self1, w1)"
  shows "self1 = self \<or> (\<exists>obj. r = Some obj \<and> self1 = cache_put lc (Some obj) self)"
  using assms
  by (auto simp: cache_lookup_def get_cached_translation_def accessor_get_def Let_def
           split: option.splits if_splits prod.splits)

lemma cache_lookup_language:
  assumes "cache_lookup self lc w = (Some obj, self1, w1)" "cache_keyed self" "shared_keyed w"
  shows "language_code obj = lc"
proof (cases "map_of (translations_cache self) lc")
  case None
  show ?thesis
  proof (cases "shared_cache w (pk self, lc)")
    case (Some v)
    obtain i l m fs where v: "v = (i, l, m, fs)" by (cases v) auto
    from assms(3) Some have "fst (snd v) = lc" unfolding shared_keyed_def by blast
    with v have "l = lc" by simp
    with assms(1) None Some v show ?thesis
      by (auto simp: cache_lookup_def get_cached_translation_def Let_def split: if_splits)
  next
    case sc: None
    with assms(1) None show ?thesis
      by (auto simp: cache_lookup_def get_cached_translation_def accessor_get_def Let_def
                     row_values_def
               dest: db_get_language split: if_splits option.splits)
  qed
next
  case (Some e)
  with assms(1) have "e = Some obj" by (auto simp: cache_lookup_def split: option.splits)
  with Some assms(2) show ?thesis by (auto dest: cache_keyed_map_of)
qed

text \<open>What a resolution never touches: the key, the flag and the language of the
  instance and the rows of the table.\<close>

lemma gtm_frame_nofb:
  assumes "get_translated_model c self lang False ac w = (r, self1, w1)"
  shows "pk self1 = pk self \<and> rows w1 = rows w \<and> adding self1 = adding self \<and>
         current_language self1 = current_language self"
proof -
  obtain r0 self0 w0 where look: "cache_lookup self (requested_language self lang) w = (r0, self0, w0)"
    by (cases "cache_lookup self (requested_language self lang) w") auto
  note fr = cache_lookup_frame [OF look]
  from assms look fr show ?thesis
    by (auto simp: gtm_nofb Let_def split: if_splits option.splits)
qed

lemma gtm_frame:
  assumes "get_translated_model c self lang fb ac w = (r, self1, w1)"
  shows "pk self1 = pk self \<and> rows w1 = rows w \<and> adding self1 = adding self \<and>
         current_language self1 = current_language self"
proof (cases "fb \<and> \<not> ac")
  case False
  then consider "\<not> fb" | "ac" by blast
  then show ?thesis
  proof cases
    case 1
    with assms show ?thesis using gtm_frame_nofb by simp
  next
    case 2
    then have "get_translated_model c self lang fb ac w = get_translated_model c self lang False ac w"
      by (simp add: gtm_auto gtm_nofb)
    with assms show ?thesis using gtm_frame_nofb by simp
  qed
next
  case True
  let ?lc = "requested_language self lang"
  obtain r0 self0 w0 where look: "cache_lookup self ?lc w = (r0, self0, w0)"
    by (cases "cache_lookup self ?lc w") auto
  note fr = cache_lookup_frame [OF look]
  obtain r2 self2 w2 where rec:
    "get_translated_model c (cache_put ?lc None self0) (Some (fallback c ?lc)) False False w0
       = (r2, self2, w2)"
    by (cases "get_translated_model c (cache_put ?lc None self0) (Some (fallback c ?lc))
                 False False w0") auto
  note fr2 = gtm_frame_nofb [OF rec]
  from assms True look fr rec fr2 show ?thesis
    by (auto simp: gtm_fb Let_def split: if_splits option.splits sum.splits error.splits)
qed

text \<open>After a resolution with \<^verbatim>\<open>auto_create\<close> the instance cache holds the result.\<close>

lemma gtm_auto_held:
  assumes "configured c" and "get_translated_model c self lang fb True w = (r, self1, w1)"
  shows "\<exists>obj. r = Inr obj \<and>
           map_of (translations_cache self1) (requested_language self lang) = Some (Some obj)"
proof -
  let ?lc = "requested_language self lang"
  from assms(1) have cfg: "\<not> (translations_model c = None \<or> py_not_str (translations_field c))"
    by (simp add: configured_def)
  obtain r0 self0 w0 where look: "cache_lookup self ?lc w = (r0, self0, w0)"
    by (cases "cache_lookup self ?lc w") auto
  show ?thesis
  proof (cases r0)
    case None
    with assms(2) cfg look show ?thesis
      by (auto simp: gtm_auto Let_def map_of_cache_put)
  next
    case (Some obj)
    with assms(2) cfg look cache_lookup_Some [of self ?lc w obj self0 w0] show ?thesis
      by (auto simp: gtm_auto Let_def)
  qed
qed

subsection \<open>Records that are new\<close>

lemma cache_lookup_adding:
  "adding self \<Longrightarrow>
   cache_lookup self lc w =
     (case map_of (translations_cache self) lc of
        Some (Some obj) \<Rightarrow> (Some obj, self, w)
      | _ \<Rightarrow> (None, self, w))"
  by (simp add: cache_lookup_def split: option.split)

lemma gtm_adding_nofb:
  assumes "adding self" and "get_translated_model c self lang False ac w = (r, self1, w1)"
  shows "trace w1 = trace w \<and> shared_cache w1 = shared_cache w \<and> rows w1 = rows w \<and>
         get_translated_model c self lang False ac (w\<lparr>shared_cache := sc, rows := rs\<rparr>)
           = (r, self1, w1\<lparr>shared_cache := sc, rows := rs\<rparr>)"
  using assms
  by (auto simp: gtm_nofb cache_lookup_adding Let_def create_translation_def
           split: option.splits if_splits)

lemma gtm_adding:
  assumes "adding self" and "get_translated_model c self lang fb ac w = (r, self1, w1)"
  shows "trace w1 = trace w \<and> shared_cache w1 = shared_cache w \<and> rows w1 = rows w \<and>
         get_translated_model c self lang fb ac (w\<lparr>shared_cache := sc, rows := rs\<rparr>)
           = (r, self1, w1\<lparr>shared_cache := sc, rows := rs\<rparr>)"
proof (cases "fb \<and> \<not> ac")
  case False
  then consider "\<not> fb" | "ac" by blast
  then show ?thesis
  proof cases
    case 1
    with assms gtm_adding_nofb show ?thesis by simp
  next
    case 2
    then have "\<And>v. get_translated_model c self lang fb ac v
                   = get_translated_model c self lang False ac v"
      by (simp add: gtm_auto gtm_nofb)
    with assms gtm_adding_nofb show ?thesis by simp
  qed
next
  case True
  let ?lc = "requested_language self lang"
  let ?f = "fallback c ?lc"
  let ?self0 = "cache_put ?lc None self"
  let ?u = "\<lambda>v. v\<lparr>shared_cache := sc, rows := rs\<rparr>"
  have ad: "adding ?self0" using assms(1) by simp
  obtain r2 self2 w2 where rec:
    "get_translated_model c ?self0 (Some ?f) False False w = (r2, self2, w2)"
    by (cases "get_translated_model c ?self0 (Some ?f) False False w") auto
  note n2 = gtm_adding_nofb [OF ad rec, where sc = sc and rs = rs]
  from assms True rec n2 show ?thesis
    by (auto simp: gtm_fb cache_lookup_adding Let_def
             split: option.splits if_splits sum.splits error.splits)
qed

subsection \<open>Writes\<close>

lemma new_id_positive: "0 < new_id rs"
  by (simp add: new_id_def)

lemma db_write_cases:
  assumes "db_write t rs = res"
  shows "res = Inl IntegrityError \<or>
         (\<exists>i rs'. res = Inr (i, rs') \<and>
            (t_pk t = Some i \<or> (t_pk t = None \<and> i = new_id rs)) \<and>
            \<lparr>row_id = i, row_language_code = language_code t, row_master_id = master_id t,
              row_fields = translated_values t\<rparr> \<in> set rs')"
proof -
  let ?i = "case t_pk t of None \<Rightarrow> new_id rs | Some j \<Rightarrow> j"
  let ?r = "\<lparr>row_id = ?i, row_language_code = language_code t, row_master_id = master_id t,
              row_fields = translated_values t\<rparr>"
  have i: "t_pk t = Some ?i \<or> (t_pk t = None \<and> ?i = new_id rs)"
    by (cases "t_pk t") auto
  have m: "list_ex (\<lambda>r'. row_id r' = ?i) rs \<Longrightarrow>
           ?r \<in> set (map (\<lambda>r'. if row_id r' = ?i then ?r else r') rs)"
    by (auto simp: list_ex_iff image_iff)
  from assms i m show ?thesis
    by (auto simp: db_write_def Let_def split: if_splits)
qed

lemma save_base_cases:
  assumes "save_base t w = (e, t', w')"
  shows "(e = Some IntegrityError \<and> t' = t \<and>
          w' = w\<lparr>trace := DbSave (master_id t) (language_code t) # trace w\<rparr>) \<or>
         (\<exists>i rs'. db_write t (rows w) = Inr (i, rs') \<and> e = None \<and>
            t' = t\<lparr>t_pk := Some i,
                   original_values := (Some i, language_code t, master_id t, translated_values t)\<rparr> \<and>
            w' = w\<lparr>shared_cache := (shared_cache w)((master_id t, language_code t) \<mapsto>
                                   (Some i, language_code t, master_id t, translated_values t)),
                   rows := rs',
                   trace := CacheSet (master_id t) (language_code t) #
                            DbSave (master_id t) (language_code t) # trace w\<rparr>)"
proof (cases "db_write t (rows w)")
  case (Inl x)
  with db_write_cases [OF Inl] assms show ?thesis
    by (auto simp: save_base_def Let_def)
next
  case (Inr p)
  obtain i rs' where "p = (i, rs')" by (cases p) auto
  with Inr assms show ?thesis
    by (auto simp: save_base_def Let_def cache_translation_def get_field_values_def)
qed

subsection \<open>Saving the instance cache\<close>

lemma save_translation_unneeded:
  "\<not> needs_save c t \<Longrightarrow> save_translation c self t w = (None, t, w)"
  by (auto simp: save_translation_def needs_save_def)

lemma save_translation_trace:
  assumes "save_translation c self t w = (e, t', w')"
  shows "db_saves (trace w') =
           (if needs_save c t then [written_as self t] else []) @ db_saves (trace w)"
proof (cases "needs_save c t")
  case False
  with assms show ?thesis by (simp add: save_translation_unneeded)
next
  case True
  let ?t1 = "if py_not (master_id t) then t\<lparr>master_id := pk self\<rparr> else t"
  from assms True have sb: "save_base ?t1 w = (e, t', w')"
    by (auto simp: save_translation_def needs_save_def Let_def split: if_splits)
  have t1: "(master_id ?t1, language_code ?t1) = written_as self t"
    by (simp add: written_as_def)
  from save_base_cases [OF sb] have "trace w' = DbSave (master_id ?t1) (language_code ?t1) # trace w \<or>
      trace w' = CacheSet (master_id ?t1) (language_code ?t1) #
                 DbSave (master_id ?t1) (language_code ?t1) # trace w"
    by auto
  then have "db_saves (trace w') = (master_id ?t1, language_code ?t1) # db_saves (trace w)"
    by auto
  with True t1 show ?thesis by simp
qed

lemma save_translation_settled:
  assumes "save_translation c self t w = (None, t', w')"
    and "\<not> is_empty c \<or> t_pk t \<noteq> Some 0"
  shows "\<not> needs_save c t'"
proof (cases "needs_save c t")
  case False
  with assms(1) show ?thesis by (simp add: save_translation_unneeded)
next
  case True
  let ?t1 = "if py_not (master_id t) then t\<lparr>master_id := pk self\<rparr> else t"
  from assms(1) True have sb: "save_base ?t1 w = (None, t', w')"
    by (auto simp: save_translation_def needs_save_def Let_def split: if_splits)
  from save_base_cases [OF sb]
  obtain i rs' where dw: "db_write ?t1 (rows w) = Inr (i, rs')"
    and t': "t' = ?t1\<lparr>t_pk := Some i,
               original_values := (Some i, language_code ?t1, master_id ?t1, translated_values ?t1)\<rparr>"
    by auto
  have nm: "\<not> is_modified t'"
    by (simp add: t' is_modified_def get_field_values_def)
  from db_write_cases [OF dw] have "t_pk ?t1 = Some i \<or> (t_pk ?t1 = None \<and> i = new_id (rows w))"
    by auto
  then have "t_pk t = Some i \<or> i = new_id (rows w)" by (auto split: if_splits)
  with assms(2) new_id_positive [of "rows w"] have "is_empty c \<longrightarrow> i \<noteq> 0" by auto
  moreover have "t_pk t' = Some i" by (simp add: t')
  ultimately show ?thesis using nm by (simp add: needs_save_def py_not_def)
qed

lemma save_entries_settled:
  assumes "save_entries c self es w = (None, es', w')"
    and "\<not> is_empty c \<or> list_all (\<lambda>t. t_pk t \<noteq> Some 0) (cached_translations es)"
  shows "db_saves (trace w') =
           rev (map (written_as self) (filter (needs_save c) (cached_translations es)))
             @ db_saves (trace w) \<and>
         list_all (\<lambda>t. \<not> needs_save c t) (cached_translations es') \<and>
         map fst es' = map fst es"
  using assms
proof (induction c self es w arbitrary: es' w' rule: save_entries.induct)
  case (1 c self w)
  then show ?case by (simp add: cached_translations_def map_filter_simps)
next
  case (2 c self l es w)
  obtain e1 es1 w1 where r: "save_entries c self es w = (e1, es1, w1)"
    by (cases "save_entries c self es w") auto
  with "2.prems" have e1: "e1 = None" "es' = (l, None) # es1" "w' = w1" by auto
  have ct: "cached_translations ((l, None) # es) = cached_translations es"
    "cached_translations ((l, None) # es1) = cached_translations es1"
    by (simp_all add: cached_translations_def map_filter_simps)
  from "2.IH" [of es1 w1] r e1 "2.prems"(2) show ?case
    by (simp add: ct)
next
  case (3 c self l t es w)
  obtain e0 t0 w0 where s: "save_translation c self t w = (e0, t0, w0)"
    by (cases "save_translation c self t w") auto
  obtain e1 es1 w1 where r: "save_entries c self es w0 = (e1, es1, w1)"
    by (cases "save_entries c self es w0") auto
  from "3.prems"(1) s r have e: "e0 = None" "e1 = None" "es' = (l, Some t0) # es1" "w' = w1"
    by (auto split: option.splits)
  have ct: "cached_translations ((l, Some t) # es) = t # cached_translations es"
    "cached_translations ((l, Some t0) # es1) = t0 # cached_translations es1"
    by (simp_all add: cached_translations_def map_filter_simps)
  from "3.prems"(2) have pk: "\<not> is_empty c \<or> t_pk t \<noteq> Some 0"
    and rest: "\<not> is_empty c \<or> list_all (\<lambda>t. t_pk t \<noteq> Some 0) (cached_translations es)"
    by (auto simp: ct)
  from s e have s': "save_translation c self t w = (None, t0, w0)" by simp
  note st = save_translation_settled [OF s' pk]
  note tr = save_translation_trace [OF s']
  from "3.IH" [OF s [symmetric] _ _ _ rest, of t0 w0 es1 w1] r e
  have ih: "db_saves (trace w1) =
           rev (map (written_as self) (filter (needs_save c) (cached_translations es)))
             @ db_saves (trace w0) \<and>
         list_all (\<lambda>t. \<not> needs_save c t) (cached_translations es1) \<and>
         map fst es1 = map fst es"
    by simp
  from ih st tr e show ?case
    by (simp add: ct)
qed

lemma save_entries_idle:
  "list_all (\<lambda>t. \<not> needs_save c t) (cached_translations es) \<Longrightarrow>
   save_entries c self es w = (None, es, w)"
proof (induction c self es w rule: save_entries.induct)
  case (1 c self w)
  then show ?case by simp
next
  case (2 c self l es w)
  then show ?case by (simp add: cached_translations_def map_filter_simps)
next
  case (3 c self l t es w)
  then show ?case
    by (simp add: cached_translations_def map_filter_simps save_translation_unneeded)
qed

subsection \<open>The scenario, evaluated\<close>

lemma scenario_saved_eq:
  "scenario_saved =
     (None,
      \<lparr>pk = Some 1, adding = False, current_language = ''en'',
        translations_cache = [(''en'', Some english_saved)]\<rparr>,
      saved_world)"
  by (simp add: scenario_saved_def set_translated_field_def gtm_auto scenario_config_def
                new_record_def empty_world_def requested_language_def cache_lookup_def
                create_translation_def get_translated_fields_def cache_put_def
                py_not_str_def init_translation_def save_def save_translations_def
                model_save_def save_translation_def save_base_def db_write_def new_id_def
                Let_def is_modified_def get_field_values_def py_not_def cache_translation_def
                english_saved_def saved_world_def)

lemma scenario_resolved_eq:
  "scenario_resolved =
     (Inr english_saved,
      \<lparr>pk = Some 1, adding = False, current_language = ''en'',
        translations_cache = [(''en'', Some english_saved), (''de'', None)]\<rparr>,
      saved_world\<lparr>trace := DbGet (Some 1) ''de'' # CacheGet (Some 1) ''de'' # trace saved_world\<rparr>)"
  by (simp add: scenario_resolved_def scenario_saved_eq gtm_fb gtm_nofb scenario_config_def
                requested_language_def cache_lookup_def get_cached_translation_def
                accessor_get_def db_get_def db_filter_def cache_put_def py_not_str_def
                Let_def saved_world_def)

subsection \<open>Resolving a language that is there\<close>

lemma get_field_values_init [simp]: "get_field_values (init_translation n v) = v"
  by (cases v) (simp add: get_field_values_def init_translation_def)

lemma resolve_present:
  assumes cfg: "configured c" and f: "f \<noteq> []" and ad: "\<not> adding s"
    and nm: "map_of (translations_cache s) f \<noteq> Some None"
    and row: "db_get (pk s) f (rows v) = Some r"
  shows "\<exists>obj s' v'.
           get_translated_model c s (Some f) False False v = (Inr obj, s', v') \<and>
           map_of (translations_cache s') f = Some (Some obj) \<and>
           (\<forall>k. k \<noteq> f \<longrightarrow> map_of (translations_cache s') k = map_of (translations_cache s) k) \<and>
           (map_of (translations_cache s) f = None \<and> shared_cache v (pk s, f) = None \<longrightarrow>
              get_field_values obj = row_values r)"
proof -
  from cfg have c: "\<not> (translations_model c = None \<or> py_not_str (translations_field c))"
    by (simp add: configured_def)
  from f have rl: "requested_language s (Some f) = f"
    by (simp add: requested_language_def)
  show ?thesis
  proof (cases "map_of (translations_cache s) f")
    case (Some e)
    with nm obtain obj where "e = Some obj" by (cases e) auto
    with Some c rl show ?thesis
      by (simp add: gtm_nofb Let_def cache_lookup_hit)
  next
    case None
    show ?thesis
    proof (cases "shared_cache v (pk s, f)")
      case (Some sv)
      with None c rl ad show ?thesis
        by (simp add: gtm_nofb Let_def cache_lookup_def get_cached_translation_def
                      map_of_cache_put)
    next
      case sn: None
      with None c rl ad row show ?thesis
        by (simp add: gtm_nofb Let_def cache_lookup_def get_cached_translation_def
                      accessor_get_def map_of_cache_put)
    qed
  qed
qed

subsection \<open>Resolving a language that is not there\<close>

text \<open>The calls that a lookup of a language makes when it finds nothing: none when the
  instance cache holds a marker, otherwise one to the shared cache and one to the table.\<close>

lemma cache_lookup_miss:
  assumes "\<not> adding s"
    and "map_of (translations_cache s) k = None \<or> map_of (translations_cache s) k = Some None"
    and "shared_cache v (pk s, k) = None"
    and "db_get (pk s) k (rows v) = None"
  shows "cache_lookup s k v =
           (None, s,
            v\<lparr>trace := (if map_of (translations_cache s) k = None
                         then [DbGet (pk s) k, CacheGet (pk s) k] else []) @ trace v\<rparr>)"
proof (cases "map_of (translations_cache s) k")
  case None
  with assms(1,3,4) show ?thesis
    by (simp add: cache_lookup_def get_cached_translation_def accessor_get_def Let_def)
next
  case (Some e)
  with assms(2) have m: "map_of (translations_cache s) k = Some None" by simp
  then show ?thesis by (simp add: cache_lookup_marker)
qed

text \<open>
  The fallback table is read once in a resolution, at the language that was asked for:
  a resolution without fallback does not read it, and the recursive call of line 286 is
  one.
\<close>

lemma gtm_nofb_fallback_free:
  assumes "translations_model c' = translations_model c"
    and "translations_field c' = translations_field c"
  shows "get_translated_model c' self lang False ac w
           = get_translated_model c self lang False ac w"
proof -
  have ct: "\<And>s lc v. create_translation c' s lc v = create_translation c s lc v"
    by (simp add: create_translation_def get_translated_fields_def assms)
  show ?thesis
    by (simp add: gtm_nofb assms ct Let_def split: prod.split option.split)
qed

lemma gtm_one_hop:
  assumes "translations_model c' = translations_model c"
    and "translations_field c' = translations_field c"
    and "fallback c' (requested_language self lang) = fallback c (requested_language self lang)"
  shows "get_translated_model c' self lang fb ac w = get_translated_model c self lang fb ac w"
proof (cases fb)
  case False
  then show ?thesis by (simp add: gtm_nofb_fallback_free [OF assms(1,2)])
next
  case True
  have ct: "\<And>s lc v. create_translation c' s lc v = create_translation c s lc v"
    by (simp add: create_translation_def get_translated_fields_def assms)
  show ?thesis
  proof (cases ac)
    case ac: True
    with True show ?thesis
      by (simp add: gtm_auto assms(1,2) ct Let_def split: prod.split option.split)
  next
    case False
    with True show ?thesis
      by (simp add: gtm_fb assms Let_def gtm_nofb_fallback_free [OF assms(1,2)]
               split: prod.split option.split sum.split error.split)
  qed
qed

subsection \<open>What a save writes\<close>

text \<open>
  \<^verbatim>\<open>save_translation\<close> writes the translation to the table if and only if the
  condition of line 346 holds: the translation is modified, or its class has no
  translated field and \<^verbatim>\<open>not translation.pk\<close> holds (it has no key, or the key 0).
  When it writes, it writes once, and the owner is bound first: a translation without an
  owner is written under the key of the record. When it does not write, nothing changes.
  After a write that succeeded the translation has a key, its row is in the table under
  the owner, and it is no longer modified. In particular a translation that was
  auto-created for a class without translated fields is not modified and is written all
  the same, and once that write has succeeded no later \<^verbatim>\<open>save_translation\<close> writes it
  again.
\<close>

lemma save_translation_writes_iff:
  assumes "save_translation c self t w = (e, t', w')"
  shows "((db_saves (trace w') \<noteq> db_saves (trace w)) \<longleftrightarrow>
            (is_modified t \<or> (is_empty c \<and> py_not (t_pk t)))) \<and>
         (is_modified t \<or> (is_empty c \<and> py_not (t_pk t)) \<longrightarrow>
            db_saves (trace w') =
              (if py_not (master_id t) then pk self else master_id t, language_code t)
                # db_saves (trace w)) \<and>
         (\<not> (is_modified t \<or> (is_empty c \<and> py_not (t_pk t))) \<longrightarrow>
            e = None \<and> t' = t \<and> w' = w) \<and>
         ((is_modified t \<or> (is_empty c \<and> py_not (t_pk t))) \<and> e = None \<longrightarrow>
            master_id t' = (if py_not (master_id t) then pk self else master_id t) \<and>
            (\<exists>i. t_pk t' = Some i \<and>
                 \<lparr>row_id = i, row_language_code = language_code t,
                   row_master_id = master_id t', row_fields = translated_values t\<rparr>
                   \<in> set (rows w')) \<and>
            \<not> is_modified t' \<and> (t_pk t = None \<longrightarrow> \<not> py_not (t_pk t'))) \<and>
         (is_empty c \<and> t = create_translation c self0 l w0 \<longrightarrow>
            \<not> is_modified t \<and>
            db_saves (trace w') =
              (if py_not (master_id t) then pk self else master_id t, language_code t)
                # db_saves (trace w) \<and>
            (e = None \<longrightarrow> (\<forall>self2 w2. save_translation c self2 t' w2 = (None, t', w2))))"
  (is "?P1 \<and> ?P2 \<and> ?P3 \<and> ?P4 \<and> ?P5")
proof -
  let ?cond = "is_modified t \<or> (is_empty c \<and> py_not (t_pk t))"
  let ?m = "if py_not (master_id t) then pk self else master_id t"
  let ?t1 = "if py_not (master_id t) then t\<lparr>master_id := pk self\<rparr> else t"
  have t1: "master_id ?t1 = ?m" "language_code ?t1 = language_code t" "t_pk ?t1 = t_pk t"
    "translated_values ?t1 = translated_values t"
    by simp_all
  have no: "\<not> ?cond \<Longrightarrow> e = None \<and> t' = t \<and> w' = w"
    using assms by (auto simp: save_translation_def split: if_splits)
  have sb: "?cond \<Longrightarrow> save_base ?t1 w = (e, t', w')"
    using assms by (auto simp: save_translation_def Let_def split: if_splits)
  have tr: "?cond \<Longrightarrow> db_saves (trace w') = (?m, language_code t) # db_saves (trace w)"
  proof -
    assume ?cond
    from save_base_cases [OF sb [OF this]] show ?thesis
      by (elim disjE exE conjE) (simp_all add: t1)
  qed
  have ok: "?cond \<and> e = None \<Longrightarrow>
            master_id t' = ?m \<and>
            (\<exists>i. t_pk t' = Some i \<and>
                 \<lparr>row_id = i, row_language_code = language_code t,
                   row_master_id = master_id t', row_fields = translated_values t\<rparr>
                   \<in> set (rows w')) \<and>
            \<not> is_modified t' \<and> (t_pk t = None \<longrightarrow> \<not> py_not (t_pk t'))"
  proof -
    assume a: "?cond \<and> e = None"
    then have c: ?cond by simp
    from save_base_cases [OF sb [OF c]] a
    obtain i rs' where dw: "db_write ?t1 (rows w) = Inr (i, rs')"
      and t': "t' = ?t1\<lparr>t_pk := Some i,
                 original_values := (Some i, language_code ?t1, master_id ?t1, translated_values ?t1)\<rparr>"
      and w': "rows w' = rs'"
      by auto
    from db_write_cases [OF dw]
    have id: "t_pk ?t1 = Some i \<or> (t_pk ?t1 = None \<and> i = new_id (rows w))"
      and mem: "\<lparr>row_id = i, row_language_code = language_code ?t1, row_master_id = master_id ?t1,
              row_fields = translated_values ?t1\<rparr> \<in> set rs'"
      by auto
    have sel: "t_pk t' = Some i" "language_code t' = language_code t" "master_id t' = ?m"
      "translated_values t' = translated_values t"
      "original_values t' = (Some i, language_code t, ?m, translated_values t)"
      by (simp_all add: t')
    have nm: "\<not> is_modified t'"
      by (simp add: is_modified_def get_field_values_def sel)
    from id have id': "t_pk t = Some i \<or> (t_pk t = None \<and> i = new_id (rows w))"
      by (simp only: t1)
    have pos: "t_pk t = None \<longrightarrow> \<not> py_not (t_pk t')"
      using id' new_id_positive [of "rows w"] by (auto simp: sel py_not_def)
    from mem w' nm pos show ?thesis
      by (simp only: sel t1) blast
  qed
  have p1: ?P1 using no tr by (cases ?cond) auto
  have p2: ?P2 using tr by blast
  have p3: ?P3 using no by blast
  have p4: ?P4 using ok by blast
  have p5: ?P5
  proof (intro impI)
    assume a: "is_empty c \<and> t = create_translation c self0 l w0"
    then have fresh: "\<not> is_modified t" "t_pk t = None"
      by (simp_all add: create_translation_def is_modified_def get_field_values_def)
    with a have c: ?cond by (simp add: py_not_def)
    have again: "e = None \<longrightarrow> (\<forall>self2 w2. save_translation c self2 t' w2 = (None, t', w2))"
    proof (intro impI allI)
      fix self2 w2
      assume "e = None"
      with ok c fresh have "\<not> is_modified t'" "\<not> py_not (t_pk t')" by auto
      then show "save_translation c self2 t' w2 = (None, t', w2)"
        by (simp add: save_translation_def)
    qed
    from fresh tr [OF c] again
    show "\<not> is_modified t \<and>
            db_saves (trace w') = (?m, language_code t) # db_saves (trace w) \<and>
            (e = None \<longrightarrow> (\<forall>self2 w2. save_translation c self2 t' w2 = (None, t', w2)))"
      by blast
  qed
  from p1 p2 p3 p4 p5 show ?thesis by (intro conjI)
qed

lemma save_translation_writes_iff_example:
  "is_empty placeholder_config \<and>
   \<not> is_modified (create_translation placeholder_config new_record ''de'' empty_world) \<and>
   (\<exists>t' w'.
      save_translation placeholder_config stored_record
        (create_translation placeholder_config new_record ''de'' empty_world) stored_world
        = (None, t', w') \<and>
      db_saves (trace w') = [(Some 1, ''de'')] \<and>
      master_id t' = Some 1 \<and> \<not> is_modified t' \<and> \<not> py_not (t_pk t') \<and>
      save_translation placeholder_config stored_record t' w' = (None, t', w'))"
proof -
  let ?t = "create_translation placeholder_config new_record ''de'' empty_world"
  have em: "is_empty placeholder_config"
    by (simp add: is_empty_def get_translated_fields_def placeholder_config_def)
  have sel: "t_pk ?t = None" "master_id ?t = None" "language_code ?t = ''de''"
    by (simp_all add: create_translation_def new_record_def)
  have "\<exists>t' w'. save_translation placeholder_config stored_record ?t stored_world = (None, t', w')"
    by (simp add: save_translation_def save_base_def db_write_def new_id_def Let_def em sel
                  py_not_def stored_world_def stored_record_def)
  then obtain t' w' where
    s: "save_translation placeholder_config stored_record ?t stored_world = (None, t', w')"
    by blast
  have tr: "db_saves (trace stored_world) = []" "pk stored_record = Some 1"
    by (simp_all add: stored_world_def stored_record_def)
  from save_translation_writes_iff [OF s, of new_record "''de''" empty_world] em
  have "\<not> is_modified ?t \<and> db_saves (trace w') = [(Some 1, ''de'')] \<and>
        master_id t' = Some 1 \<and> \<not> is_modified t' \<and> \<not> py_not (t_pk t') \<and>
        save_translation placeholder_config stored_record t' w' = (None, t', w')"
    by (simp add: sel tr py_not_def)
  with em s show ?thesis by blast
qed

text \<open>
  When a save of a record has succeeded, it has written each translation of the instance
  cache that needed it (modified, or a new placeholder) exactly once, in the order of the
  cache, and a second save with no change in between writes nothing: it leaves the
  instance and the world, trace included, as they are. After the first save no cached
  translation is modified or in need of a save. For a class without translated fields
  this needs that no cached translation carries the key 0, which
  \<^verbatim>\<open>not translation.pk\<close> takes for no key; a class with translated fields needs nothing.
\<close>

lemma save_twice_writes_once:
  assumes "save c fresh self w = (None, self1, w1)"
    and "\<not> is_empty c \<or>
         list_all (\<lambda>t. t_pk t \<noteq> Some 0) (cached_translations (translations_cache self))"
  shows "db_saves (trace w1) =
           rev (map (written_as (model_save fresh self))
                  (filter (needs_save c) (cached_translations (translations_cache self))))
             @ db_saves (trace w) \<and>
         list_all (\<lambda>t. \<not> is_modified t \<and> \<not> needs_save c t)
           (cached_translations (translations_cache self1)) \<and>
         (\<forall>fresh2. save c fresh2 self1 w1 = (None, self1, w1))"
proof -
  let ?self0 = "model_save fresh self"
  have tc: "translations_cache ?self0 = translations_cache self"
    by (simp add: model_save_def)
  obtain e es' w' where se: "save_entries c ?self0 (translations_cache self) w = (e, es', w')"
    by (cases "save_entries c ?self0 (translations_cache self) w") auto
  with assms(1) have r: "e = None" "self1 = ?self0\<lparr>translations_cache := es'\<rparr>" "w1 = w'"
    by (auto simp: save_def save_translations_def tc)
  from se r have se': "save_entries c ?self0 (translations_cache self) w = (None, es', w1)"
    by simp
  note main = save_entries_settled [OF se' assms(2)]
  then have settled: "list_all (\<lambda>t. \<not> needs_save c t) (cached_translations es')"
    by simp
  have c1: "translations_cache self1 = es'" by (simp add: r)
  have a: "db_saves (trace w1) =
           rev (map (written_as ?self0)
                  (filter (needs_save c) (cached_translations (translations_cache self))))
             @ db_saves (trace w)"
    using main by simp
  have b: "list_all (\<lambda>t. \<not> is_modified t \<and> \<not> needs_save c t)
             (cached_translations (translations_cache self1))"
    using settled by (auto simp: c1 list_all_iff needs_save_def)
  have d: "\<forall>fresh2. save c fresh2 self1 w1 = (None, self1, w1)"
  proof
    fix fresh2
    have "model_save fresh2 self1 = self1"
      by (cases "pk self") (simp_all add: r model_save_def)
    then show "save c fresh2 self1 w1 = (None, self1, w1)"
      by (simp add: save_def save_translations_def c1 save_entries_idle [OF settled])
  qed
  from a b d show ?thesis by (intro conjI)
qed

lemma save_twice_writes_once_example:
  "\<not> is_empty scenario_config \<and>
   (\<exists>self1 w1.
      save scenario_config 1 two_drafts empty_world = (None, self1, w1) \<and>
      db_saves (trace w1) = [(Some 1, ''fr''), (Some 1, ''en'')] \<and>
      rows w1 =
        [\<lparr>row_id = 1, row_language_code = ''en'', row_master_id = Some 1,
          row_fields = [''Hello'']\<rparr>,
         \<lparr>row_id = 2, row_language_code = ''fr'', row_master_id = Some 1,
          row_fields = [''Bonjour'']\<rparr>] \<and>
      save scenario_config 1 self1 w1 = (None, self1, w1))"
proof -
  have ne: "\<not> is_empty scenario_config"
    by (simp add: is_empty_def get_translated_fields_def scenario_config_def)
  have ev: "\<exists>self1 w1.
      save scenario_config 1 two_drafts empty_world = (None, self1, w1) \<and>
      rows w1 =
        [\<lparr>row_id = 1, row_language_code = ''en'', row_master_id = Some 1,
          row_fields = [''Hello'']\<rparr>,
         \<lparr>row_id = 2, row_language_code = ''fr'', row_master_id = Some 1,
          row_fields = [''Bonjour'']\<rparr>]"
    by (simp add: save_def save_translations_def model_save_def two_drafts_def empty_world_def
                  save_translation_def save_base_def db_write_def new_id_def Let_def
                  is_modified_def get_field_values_def py_not_def cache_translation_def)
  then obtain self1 w1 where
    s: "save scenario_config 1 two_drafts empty_world = (None, self1, w1)"
    and rs: "rows w1 =
        [\<lparr>row_id = 1, row_language_code = ''en'', row_master_id = Some 1,
          row_fields = [''Hello'']\<rparr>,
         \<lparr>row_id = 2, row_language_code = ''fr'', row_master_id = Some 1,
          row_fields = [''Bonjour'']\<rparr>]"
    by blast
  have pending: "map (written_as (model_save 1 two_drafts))
                  (filter (needs_save scenario_config)
                     (cached_translations (translations_cache two_drafts)))
                 = [(Some 1, ''en''), (Some 1, ''fr'')]"
    by (simp add: two_drafts_def cached_translations_def map_filter_simps needs_save_def
                  is_modified_def get_field_values_def written_as_def py_not_def model_save_def)
  from save_twice_writes_once [OF s] ne pending
  have "db_saves (trace w1) = [(Some 1, ''fr''), (Some 1, ''en'')] \<and>
        save scenario_config 1 self1 w1 = (None, self1, w1)"
    by (simp add: empty_world_def)
  with ne s rs show ?thesis by blast
qed

subsection \<open>Claims\<close>

text \<open>
  C4. For every record of a configured model and every language, two calls of
  \<^verbatim>\<open>_get_translated_model\<close> with \<^verbatim>\<open>auto_create=True\<close> in a row return the same
  object: after the first call the object is the entry of the instance cache for the
  language, and the second call returns that entry and leaves the instance and the world
  as they were, so no second object is created and nothing is queried. The language may
  be left out (the current language is taken) and the fallback flag may be either.
\<close>

theorem autocreate_twice_same_object:
  assumes "configured c"
  shows "\<exists>obj self1 w1.
           get_translated_model c self lang fb1 True w = (Inr obj, self1, w1) \<and>
           map_of (translations_cache self1) (requested_language self lang) = Some (Some obj) \<and>
           get_translated_model c self1 lang fb2 True w1 = (Inr obj, self1, w1)"
proof -
  let ?lc = "requested_language self lang"
  from assms have cfg: "\<not> (translations_model c = None \<or> py_not_str (translations_field c))"
    by (simp add: configured_def)
  obtain r self0 w0 where look: "cache_lookup self ?lc w = (r, self0, w0)"
    by (cases "cache_lookup self ?lc w") auto
  have "current_language self0 = current_language self"
    using cache_lookup_frame [OF look] by simp
  then have rl: "requested_language self0 lang = ?lc"
    by (rule requested_language_frame)
  show ?thesis
  proof (cases r)
    case None
    let ?obj = "create_translation c self0 ?lc w0"
    let ?self1 = "cache_put ?lc (Some ?obj) self0"
    let ?w1 = "w0\<lparr>next_oid := Suc (next_oid w0)\<rparr>"
    have first: "get_translated_model c self lang fb1 True w = (Inr ?obj, ?self1, ?w1)"
      using cfg look None by (simp add: gtm_auto Let_def)
    have held: "map_of (translations_cache ?self1) ?lc = Some (Some ?obj)"
      by (simp add: map_of_cache_put)
    have "requested_language ?self1 lang = requested_language self0 lang"
      by (rule requested_language_frame) simp
    with rl have "requested_language ?self1 lang = ?lc"
      by simp
    then have second: "get_translated_model c ?self1 lang fb2 True ?w1 = (Inr ?obj, ?self1, ?w1)"
      using cfg by (simp add: gtm_auto Let_def cache_lookup_hit [OF held])
    from first held second show ?thesis by blast
  next
    case (Some obj)
    have first: "get_translated_model c self lang fb1 True w = (Inr obj, self0, w0)"
      using cfg look Some by (simp add: gtm_auto Let_def)
    have held: "map_of (translations_cache self0) ?lc = Some (Some obj)"
      using cache_lookup_Some look Some by blast
    have second: "get_translated_model c self0 lang fb2 True w0 = (Inr obj, self0, w0)"
      using cfg by (simp add: gtm_auto Let_def rl cache_lookup_hit [OF held])
    from first held second show ?thesis by blast
  qed
qed

theorem autocreate_twice_same_object_witness:
  "configured scenario_config \<and>
   (\<exists>obj self1 w1.
      get_translated_model scenario_config new_record (Some ''fr'') False True empty_world
        = (Inr obj, self1, w1) \<and>
      map_of (translations_cache self1) (requested_language new_record (Some ''fr''))
        = Some (Some obj) \<and>
      get_translated_model scenario_config self1 (Some ''fr'') True True w1 = (Inr obj, self1, w1))"
proof -
  have h: "configured scenario_config"
    by (simp add: configured_def scenario_config_def py_not_str_def)
  show ?thesis
    using h autocreate_twice_same_object [OF h, of new_record "Some ''fr''" False empty_world True]
    by simp
qed

text \<open>
  C10. For every record of a configured model and every language, a resolution with
  \<^verbatim>\<open>auto_create=True\<close> returns a translation and raises nothing, whatever
  \<^verbatim>\<open>use_fallback\<close> is: the result is the one of the call without fallback, it is the
  entry of the instance cache for the requested language itself, no marker is added to
  the instance cache (the fallback branch is not reached), and with caches that hold
  every translation under its own language the language code of the result is the
  requested one.
\<close>

theorem autocreate_always_returns:
  assumes "configured c"
  shows "\<exists>obj self1 w1.
     get_translated_model c self lang use_fallback True w = (Inr obj, self1, w1) \<and>
     map_of (translations_cache self1) (requested_language self lang) = Some (Some obj) \<and>
     get_translated_model c self lang False True w = (Inr obj, self1, w1) \<and>
     (\<forall>k. map_of (translations_cache self1) k = Some None \<longrightarrow>
          map_of (translations_cache self) k = Some None) \<and>
     (cache_keyed self \<and> shared_keyed w \<longrightarrow> language_code obj = requested_language self lang)"
proof -
  let ?lc = "requested_language self lang"
  from assms have cfg: "\<not> (translations_model c = None \<or> py_not_str (translations_field c))"
    by (simp add: configured_def)
  obtain r self0 w0 where look: "cache_lookup self ?lc w = (r, self0, w0)"
    by (cases "cache_lookup self ?lc w") auto
  show ?thesis
  proof (cases r)
    case None
    let ?obj = "create_translation c self0 ?lc w0"
    let ?self1 = "cache_put ?lc (Some ?obj) self0"
    let ?w1 = "w0\<lparr>next_oid := Suc (next_oid w0)\<rparr>"
    have self0: "self0 = self" using cache_lookup_None look None by blast
    have r1: "get_translated_model c self lang use_fallback True w = (Inr ?obj, ?self1, ?w1)"
      using cfg look None by (simp add: gtm_auto Let_def)
    have r2: "get_translated_model c self lang False True w = (Inr ?obj, ?self1, ?w1)"
      using cfg look None by (simp add: gtm_auto Let_def)
    have held: "map_of (translations_cache ?self1) ?lc = Some (Some ?obj)"
      by (simp add: map_of_cache_put)
    have mark: "\<forall>k. map_of (translations_cache ?self1) k = Some None \<longrightarrow>
          map_of (translations_cache self) k = Some None"
      using self0 by (simp add: map_of_cache_put)
    have lang: "language_code ?obj = ?lc"
      by (simp add: create_translation_def)
    from r1 r2 held mark lang show ?thesis by blast
  next
    case (Some obj)
    have r1: "get_translated_model c self lang use_fallback True w = (Inr obj, self0, w0)"
      using cfg look Some by (simp add: gtm_auto Let_def)
    have r2: "get_translated_model c self lang False True w = (Inr obj, self0, w0)"
      using cfg look Some by (simp add: gtm_auto Let_def)
    have held: "map_of (translations_cache self0) ?lc = Some (Some obj)"
      using cache_lookup_Some look Some by blast
    have mark: "\<forall>k. map_of (translations_cache self0) k = Some None \<longrightarrow>
          map_of (translations_cache self) k = Some None"
      using cache_lookup_cases [OF look] by (auto simp: map_of_cache_put split: if_splits)
    have lang: "cache_keyed self \<and> shared_keyed w \<longrightarrow> language_code obj = ?lc"
      using cache_lookup_language look Some by blast
    from r1 r2 held mark lang show ?thesis by blast
  qed
qed

theorem autocreate_always_returns_witness:
  "configured scenario_config \<and> cache_keyed stored_record \<and> shared_keyed stored_world \<and>
   (\<exists>obj self1 w1.
      get_translated_model scenario_config stored_record (Some ''de'') True True stored_world
        = (Inr obj, self1, w1) \<and>
      map_of (translations_cache self1) ''de'' = Some (Some obj) \<and>
      language_code obj = ''de'')"
proof -
  have h: "configured scenario_config"
    by (simp add: configured_def scenario_config_def py_not_str_def)
  have k: "cache_keyed stored_record \<and> shared_keyed stored_world"
    by (simp add: cache_keyed_def shared_keyed_def stored_record_def stored_world_def)
  have l: "requested_language stored_record (Some ''de'') = ''de''"
    by (simp add: requested_language_def)
  from autocreate_always_returns [OF h, of stored_record "Some ''de''" True stored_world] k l h
  show ?thesis by auto
qed

text \<open>
  C9. After a resolution with \<^verbatim>\<open>auto_create=True\<close> and no save,
  \<^verbatim>\<open>has_translation\<close> for that language is true, and it is answered from the instance
  cache: the instance and the world (its trace too) are unchanged. The resolution wrote
  no row, so this holds also when the table has no row for the record and the language.
  The language is a non-empty code, or left out.
\<close>

theorem has_translation_of_unsaved_autocreated:
  assumes "configured c" and "lang \<noteq> Some []"
      and "get_translated_model c self lang fb True w = (r, self1, w1)"
  shows "has_translation c self1 lang w1 = (Inr True, self1, w1) \<and>
         db_get (pk self1) (requested_language self lang) (rows w1)
           = db_get (pk self) (requested_language self lang) (rows w)"
proof -
  let ?lc = "requested_language self lang"
  from gtm_auto_held [OF assms(1) assms(3)]
  obtain obj where held: "map_of (translations_cache self1) ?lc = Some (Some obj)"
    by auto
  from gtm_frame [OF assms(3)]
  have cur: "current_language self1 = current_language self"
    and frame: "rows w1 = rows w" "pk self1 = pk self"
    by auto
  have key: "(case lang of None \<Rightarrow> current_language self1 | Some l \<Rightarrow> l) = ?lc"
    using assms(2) cur by (simp add: requested_language_def split: option.split)
  have "has_translation c self1 lang w1 = (Inr True, self1, w1)"
    by (simp add: has_translation_def key held Let_def)
  with frame show ?thesis by simp
qed

theorem has_translation_of_unsaved_autocreated_witness:
  "configured scenario_config \<and> Some ''de'' \<noteq> Some [] \<and>
   db_get (pk stored_record) ''de'' (rows stored_world) = None \<and>
   (\<exists>r self1 w1.
      get_translated_model scenario_config stored_record (Some ''de'') False True stored_world
        = (r, self1, w1) \<and>
      has_translation scenario_config self1 (Some ''de'') w1 = (Inr True, self1, w1) \<and>
      db_get (pk self1) ''de'' (rows w1) = None)"
proof -
  have h: "configured scenario_config"
    by (simp add: configured_def scenario_config_def py_not_str_def)
  have n: "db_get (pk stored_record) ''de'' (rows stored_world) = None"
    by (simp add: db_get_def db_filter_def stored_record_def stored_world_def)
  have l: "requested_language stored_record (Some ''de'') = ''de''"
    by (simp add: requested_language_def)
  obtain r self1 w1 where
    g: "get_translated_model scenario_config stored_record (Some ''de'') False True stored_world
          = (r, self1, w1)"
    by (cases "get_translated_model scenario_config stored_record (Some ''de'') False True
                 stored_world") auto
  from has_translation_of_unsaved_autocreated [OF h _ g] n l
  have "has_translation scenario_config self1 (Some ''de'') w1 = (Inr True, self1, w1) \<and>
        db_get (pk self1) ''de'' (rows w1) = None"
    by simp
  with h n g show ?thesis by blast
qed

text \<open>
  C6. For every record of a model with a translations model,
  \<^verbatim>\<open>get_available_languages\<close> queries the table (the trace gains the one listing) and
  returns the language codes in ascending order; a code is in the result exactly when the
  table has a row for the record and that code; the result is empty for a record without
  a key; it does not depend on the instance cache, and a translation that a resolution
  with \<^verbatim>\<open>auto_create\<close> has put in the instance cache without a save does not change it.
\<close>

theorem available_languages_sorted_from_store:
  assumes "translations_model c \<noteq> None"
  shows "\<exists>ls. get_available_languages c self w
                = (Inr ls, w\<lparr>trace := DbList (pk self) # trace w\<rparr>) \<and>
           sorted ls \<and>
           (\<forall>l. l \<in> set ls \<longleftrightarrow> db_get (pk self) l (rows w) \<noteq> None) \<and>
           (pk self = None \<longrightarrow> ls = []) \<and>
           (\<forall>tc. fst (get_available_languages c (self\<lparr>translations_cache := tc\<rparr>) w) = Inr ls) \<and>
           (\<forall>lang fb r self1 w1.
               get_translated_model c self lang fb True w = (r, self1, w1) \<longrightarrow>
               fst (get_available_languages c self1 w1) = Inr ls)"
proof -
  let ?ls = "sort (map row_language_code (db_filter (pk self) (rows w)))"
  have a: "get_available_languages c self w
             = (Inr ?ls, w\<lparr>trace := DbList (pk self) # trace w\<rparr>)"
    using assms by (simp add: get_available_languages_def)
  have b: "sorted ?ls" by simp
  have c: "\<forall>l. l \<in> set ?ls \<longleftrightarrow> db_get (pk self) l (rows w) \<noteq> None"
    by (simp add: db_get_None_iff)
  have d: "pk self = None \<longrightarrow> ?ls = []" by (simp add: db_filter_def)
  have e: "\<forall>tc. fst (get_available_languages c (self\<lparr>translations_cache := tc\<rparr>) w) = Inr ?ls"
    using assms by (simp add: get_available_languages_def)
  have f: "\<forall>lang fb r self1 w1.
               get_translated_model c self lang fb True w = (r, self1, w1) \<longrightarrow>
               fst (get_available_languages c self1 w1) = Inr ?ls"
    using assms by (auto simp: get_available_languages_def dest: gtm_frame)
  show ?thesis
    by (rule exI [of _ ?ls]) (intro conjI a b c d e f)
qed

theorem available_languages_sorted_from_store_witness:
  "translations_model scenario_config \<noteq> None \<and>
   fst (get_available_languages scenario_config stored_record stored_world)
     = Inr [''en'', ''fr''] \<and>
   (\<exists>ls. get_available_languages scenario_config stored_record stored_world
            = (Inr ls, stored_world\<lparr>trace := DbList (pk stored_record) # trace stored_world\<rparr>) \<and>
          sorted ls \<and>
          (\<exists>r self1 w1.
             get_translated_model scenario_config stored_record (Some ''de'') False True
               stored_world = (r, self1, w1) \<and>
             fst (get_available_languages scenario_config self1 w1) = Inr ls))"
proof -
  have h: "translations_model scenario_config \<noteq> None"
    by (simp add: scenario_config_def)
  have v: "fst (get_available_languages scenario_config stored_record stored_world)
             = Inr [''en'', ''fr'']"
    by (simp add: get_available_languages_def scenario_config_def stored_record_def
                  stored_world_def db_filter_def)
  obtain r self1 w1 where
    g: "get_translated_model scenario_config stored_record (Some ''de'') False True stored_world
          = (r, self1, w1)"
    by (cases "get_translated_model scenario_config stored_record (Some ''de'') False True
                 stored_world") auto
  from available_languages_sorted_from_store [OF h, of stored_record stored_world] g h v
  show ?thesis by blast
qed

text \<open>
  C7. A resolution on a record that is new (\<^verbatim>\<open>_state.adding\<close>, no persisted identity
  yet) consults neither the shared cache nor the table: the trace, the shared cache and
  the rows are unchanged, and the result is the same whatever the shared cache and the
  rows hold. On any record, when the lookup of lines 233-261 misses, a resolution with
  \<^verbatim>\<open>auto_create\<close> returns a new translation without a key, puts it in the instance
  cache and nowhere else: the shared cache is unchanged and is not written. A
  \<^verbatim>\<open>save_translation\<close> changes the shared cache only when the write to the table has
  succeeded, and then the entry of the translation is its saved snapshot.
\<close>

theorem new_record_skips_lookup_and_autocreated_stays_local:
  "(adding self \<and> get_translated_model c self lang fb ac w = (r, self1, w1) \<longrightarrow>
      trace w1 = trace w \<and> shared_cache w1 = shared_cache w \<and> rows w1 = rows w \<and>
      (\<forall>sc rs. get_translated_model c self lang fb ac (w\<lparr>shared_cache := sc, rows := rs\<rparr>)
                 = (r, self1, w1\<lparr>shared_cache := sc, rows := rs\<rparr>))) \<and>
   (configured c \<and> fst (cache_lookup self (requested_language self lang) w) = None \<longrightarrow>
      (\<exists>obj w0.
         get_translated_model c self lang fb True w
           = (Inr obj, cache_put (requested_language self lang) (Some obj) self, w0) \<and>
         t_pk obj = None \<and> oid obj = next_oid w \<and> master_id obj = pk self \<and>
         language_code obj = requested_language self lang \<and>
         shared_cache w0 = shared_cache w \<and> rows w0 = rows w \<and>
         cache_sets (trace w0) = cache_sets (trace w))) \<and>
   (save_translation c self t w = (e, t', w') \<longrightarrow>
      (shared_cache w' = shared_cache w \<and> cache_sets (trace w') = cache_sets (trace w)) \<or>
      (e = None \<and>
       (\<exists>i. t_pk t' = Some i \<and>
            \<lparr>row_id = i, row_language_code = language_code t', row_master_id = master_id t',
              row_fields = translated_values t'\<rparr> \<in> set (rows w')) \<and>
       shared_cache w' = (shared_cache w)((master_id t', language_code t') \<mapsto> get_field_values t') \<and>
       cache_sets (trace w') = (master_id t', language_code t') # cache_sets (trace w)))"
  (is "?P1 \<and> ?P2 \<and> ?P3")
proof -
  have p1: ?P1
  proof
    assume "adding self \<and> get_translated_model c self lang fb ac w = (r, self1, w1)"
    then show "trace w1 = trace w \<and> shared_cache w1 = shared_cache w \<and> rows w1 = rows w \<and>
        (\<forall>sc rs. get_translated_model c self lang fb ac (w\<lparr>shared_cache := sc, rows := rs\<rparr>)
                   = (r, self1, w1\<lparr>shared_cache := sc, rows := rs\<rparr>))"
      using gtm_adding by blast
  qed
  have p2: ?P2
  proof
    let ?lc = "requested_language self lang"
    assume a: "configured c \<and> fst (cache_lookup self ?lc w) = None"
    then have cfg: "\<not> (translations_model c = None \<or> py_not_str (translations_field c))"
      by (simp add: configured_def)
    obtain self0 w0 where look: "cache_lookup self ?lc w = (None, self0, w0)"
      using a by (cases "cache_lookup self ?lc w") auto
    note n = cache_lookup_None [OF look]
    have tr: "cache_sets (trace w0) = cache_sets (trace w)"
      using look
      by (auto simp: cache_lookup_def get_cached_translation_def accessor_get_def Let_def
               split: option.splits if_splits prod.splits)
    let ?obj = "create_translation c self ?lc w0"
    have "get_translated_model c self lang fb True w
            = (Inr ?obj, cache_put ?lc (Some ?obj) self, w0\<lparr>next_oid := Suc (next_oid w0)\<rparr>)"
      using cfg look n by (simp add: gtm_auto Let_def)
    moreover have "t_pk ?obj = None \<and> oid ?obj = next_oid w \<and> master_id ?obj = pk self \<and>
                   language_code ?obj = ?lc"
      using n by (simp add: create_translation_def)
    ultimately show "\<exists>obj w0.
           get_translated_model c self lang fb True w = (Inr obj, cache_put ?lc (Some obj) self, w0) \<and>
           t_pk obj = None \<and> oid obj = next_oid w \<and> master_id obj = pk self \<and>
           language_code obj = ?lc \<and>
           shared_cache w0 = shared_cache w \<and> rows w0 = rows w \<and>
           cache_sets (trace w0) = cache_sets (trace w)"
      using n tr by (intro exI [of _ ?obj] exI [of _ "w0\<lparr>next_oid := Suc (next_oid w0)\<rparr>"]) simp
  qed
  have p3: ?P3
  proof
    assume s: "save_translation c self t w = (e, t', w')"
    show "(shared_cache w' = shared_cache w \<and> cache_sets (trace w') = cache_sets (trace w)) \<or>
        (e = None \<and>
         (\<exists>i. t_pk t' = Some i \<and>
              \<lparr>row_id = i, row_language_code = language_code t', row_master_id = master_id t',
                row_fields = translated_values t'\<rparr> \<in> set (rows w')) \<and>
         shared_cache w' = (shared_cache w)((master_id t', language_code t') \<mapsto> get_field_values t') \<and>
         cache_sets (trace w') = (master_id t', language_code t') # cache_sets (trace w))"
    proof (cases "is_modified t \<or> (is_empty c \<and> py_not (t_pk t))")
      case False
      with s show ?thesis by (simp add: save_translation_def)
    next
      case True
      let ?t1 = "if py_not (master_id t) then t\<lparr>master_id := pk self\<rparr> else t"
      from s True have sb: "save_base ?t1 w = (e, t', w')"
        by (simp add: save_translation_def Let_def)
      from save_base_cases [OF sb] show ?thesis
      proof (elim disjE exE conjE)
        assume "w' = w\<lparr>trace := DbSave (master_id ?t1) (language_code ?t1) # trace w\<rparr>"
        then show ?thesis by simp
      next
        fix i rs'
        assume dw: "db_write ?t1 (rows w) = Inr (i, rs')" and e: "e = None"
          and t': "t' = ?t1\<lparr>t_pk := Some i,
                     original_values := (Some i, language_code ?t1, master_id ?t1, translated_values ?t1)\<rparr>"
          and w': "w' = w\<lparr>shared_cache := (shared_cache w)((master_id ?t1, language_code ?t1) \<mapsto>
                                     (Some i, language_code ?t1, master_id ?t1, translated_values ?t1)),
                     rows := rs',
                     trace := CacheSet (master_id ?t1) (language_code ?t1) #
                              DbSave (master_id ?t1) (language_code ?t1) # trace w\<rparr>"
        from db_write_cases [OF dw]
        have mem: "\<lparr>row_id = i, row_language_code = language_code ?t1, row_master_id = master_id ?t1,
                row_fields = translated_values ?t1\<rparr> \<in> set rs'"
          by auto
        have sel: "t_pk t' = Some i" "language_code t' = language_code ?t1"
          "master_id t' = master_id ?t1" "translated_values t' = translated_values ?t1"
          by (simp_all add: t')
        have "e = None \<and>
         (\<exists>i. t_pk t' = Some i \<and>
              \<lparr>row_id = i, row_language_code = language_code t', row_master_id = master_id t',
                row_fields = translated_values t'\<rparr> \<in> set (rows w')) \<and>
         shared_cache w' = (shared_cache w)((master_id t', language_code t') \<mapsto> get_field_values t') \<and>
         cache_sets (trace w') = (master_id t', language_code t') # cache_sets (trace w)"
          using e mem by (simp add: sel w' get_field_values_def)
        then show ?thesis by blast
      qed
    qed
  qed
  from p1 p2 p3 show ?thesis by (intro conjI)
qed

theorem new_record_skips_lookup_and_autocreated_stays_local_witness:
  "adding new_record \<and> configured scenario_config \<and>
   fst (cache_lookup new_record (requested_language new_record (Some ''fr'')) stored_world) = None \<and>
   (\<exists>r self1 w1.
      get_translated_model scenario_config new_record (Some ''fr'') True False stored_world
        = (r, self1, w1) \<and>
      trace w1 = trace stored_world \<and> rows w1 = rows stored_world \<and>
      get_translated_model scenario_config new_record (Some ''fr'') True False
        (stored_world\<lparr>shared_cache := shared_cache empty_world, rows := []\<rparr>)
        = (r, self1, w1\<lparr>shared_cache := shared_cache empty_world, rows := []\<rparr>)) \<and>
   (\<exists>obj w0.
      get_translated_model scenario_config new_record (Some ''fr'') True True stored_world
        = (Inr obj, cache_put ''fr'' (Some obj) new_record, w0) \<and>
      t_pk obj = None \<and> shared_cache w0 = shared_cache stored_world \<and>
      cache_sets (trace w0) = cache_sets (trace stored_world)) \<and>
   (\<exists>t' w'.
      save_translation scenario_config stored_record german_draft stored_world = (None, t', w') \<and>
      t_pk t' = Some 4 \<and>
      shared_cache w' (Some 1, ''de'') = Some (Some 4, ''de'', Some 1, [''Hallo Welt'']) \<and>
      cache_sets (trace w') = [(Some 1, ''de'')])"
proof -
  have a: "adding new_record" by (simp add: new_record_def)
  have h: "configured scenario_config"
    by (simp add: configured_def scenario_config_def py_not_str_def)
  have l: "requested_language new_record (Some ''fr'') = ''fr''"
    by (simp add: requested_language_def)
  have m: "fst (cache_lookup new_record (requested_language new_record (Some ''fr'')) stored_world)
             = None"
    by (simp add: l cache_lookup_adding [OF a]) (simp add: new_record_def)
  obtain r self1 w1 where
    g: "get_translated_model scenario_config new_record (Some ''fr'') True False stored_world
          = (r, self1, w1)"
    by (cases "get_translated_model scenario_config new_record (Some ''fr'') True False
                 stored_world") auto
  note th = new_record_skips_lookup_and_autocreated_stays_local
  from th [of new_record scenario_config "Some ''fr''" True False stored_world r self1 w1] a g
  have p1: "trace w1 = trace stored_world \<and> rows w1 = rows stored_world \<and>
      get_translated_model scenario_config new_record (Some ''fr'') True False
        (stored_world\<lparr>shared_cache := shared_cache empty_world, rows := []\<rparr>)
        = (r, self1, w1\<lparr>shared_cache := shared_cache empty_world, rows := []\<rparr>)"
    by blast
  from th [of new_record scenario_config "Some ''fr''" True False stored_world r self1 w1] h m l
  have p2: "\<exists>obj w0.
      get_translated_model scenario_config new_record (Some ''fr'') True True stored_world
        = (Inr obj, cache_put ''fr'' (Some obj) new_record, w0) \<and>
      t_pk obj = None \<and> shared_cache w0 = shared_cache stored_world \<and>
      cache_sets (trace w0) = cache_sets (trace stored_world)"
    by (simp add: l) blast
  have p3: "\<exists>t' w'.
      save_translation scenario_config stored_record german_draft stored_world = (None, t', w') \<and>
      t_pk t' = Some 4 \<and>
      shared_cache w' (Some 1, ''de'') = Some (Some 4, ''de'', Some 1, [''Hallo Welt'']) \<and>
      cache_sets (trace w') = [(Some 1, ''de'')]"
    by (simp add: save_translation_def save_base_def db_write_def new_id_def Let_def
                  is_modified_def get_field_values_def py_not_def cache_translation_def
                  german_draft_def stored_record_def stored_world_def)
  from a h m g p1 p2 p3 show ?thesis by blast
qed

text \<open>
  C2 fails in the code for a translation with the key 0. Line 346 tests
  \<^verbatim>\<open>not translation.pk\<close>, which holds for the key 0 as it does for no key, where
  \<^verbatim>\<open>save_base\<close> (line 463) tests \<^verbatim>\<open>self.pk is not None\<close>. The class has no translated
  field; the translation was loaded from the row with key 0, so it has a primary key and
  is not modified; and \<^verbatim>\<open>save_translation\<close> writes it to the table all the same. The
  same translation under the key 5 is left alone.
\<close>

theorem save_translation_rewrites_key_zero:
  "is_empty placeholder_config \<and>
   db_get (Some 1) ''en'' (rows zero_world) = Some zero_row \<and>
   get_field_values zero_keyed = row_values zero_row \<and>
   t_pk zero_keyed = Some 0 \<and>
   \<not> is_modified zero_keyed \<and>
   db_saves (trace zero_world) = [] \<and>
   fst (save_translation placeholder_config stored_record zero_keyed zero_world) = None \<and>
   db_saves (trace (snd (snd
       (save_translation placeholder_config stored_record zero_keyed zero_world))))
     = [(Some 1, ''en'')] \<and>
   \<not> is_modified (init_translation 0 (Some 5, ''en'', Some 1, [])) \<and>
   save_translation placeholder_config stored_record
       (init_translation 0 (Some 5, ''en'', Some 1, [])) zero_world
     = (None, init_translation 0 (Some 5, ''en'', Some 1, []), zero_world)"
  by (simp add: is_empty_def get_translated_fields_def placeholder_config_def db_get_def
                db_filter_def zero_world_def zero_row_def zero_keyed_def row_values_def
                is_modified_def get_field_values_def py_not_def save_translation_def
                save_base_def db_write_def cache_translation_def Let_def stored_record_def)

theorem save_translation_rewrites_key_zero_witness:
  "needs_save placeholder_config zero_keyed \<and>
   py_not (t_pk zero_keyed) \<and> t_pk zero_keyed \<noteq> None \<and>
   db_saves (trace (snd (snd
       (save_translation placeholder_config stored_record zero_keyed zero_world))))
     \<noteq> db_saves (trace zero_world)"
proof -
  note th = save_translation_rewrites_key_zero
  from th have k: "t_pk zero_keyed = Some 0" and e: "is_empty placeholder_config"
    by simp_all
  from th have "db_saves (trace (snd (snd
       (save_translation placeholder_config stored_record zero_keyed zero_world))))
     \<noteq> db_saves (trace zero_world)"
    by simp
  with k e show ?thesis by (simp add: needs_save_def py_not_def)
qed

text \<open>
  C3 fails in the code for a translation with the key 0, by the same test of line 346.
  The class has no translated field; the record holds the translation of the row with
  key 0, whose language code was changed. The first save writes it once and leaves it
  unmodified, with its key. The second save, with no change in between, writes it again.
\<close>

theorem save_twice_writes_key_zero_twice:
  "is_empty placeholder_config \<and>
   cached_translations (translations_cache relabelled_record)
     = [zero_keyed\<lparr>language_code := ''fr''\<rparr>] \<and>
   is_modified (zero_keyed\<lparr>language_code := ''fr''\<rparr>) \<and>
   db_saves (trace zero_world) = [] \<and>
   (case save placeholder_config 1 relabelled_record zero_world of
      (e1, self1, w1) \<Rightarrow>
        e1 = None \<and>
        db_saves (trace w1) = [(Some 1, ''fr'')] \<and>
        list_all (\<lambda>t. \<not> is_modified t \<and> t_pk t = Some 0)
          (cached_translations (translations_cache self1)) \<and>
        (case save placeholder_config 1 self1 w1 of
           (e2, self2, w2) \<Rightarrow>
             e2 = None \<and> self2 = self1 \<and> rows w2 = rows w1 \<and>
             db_saves (trace w2) = [(Some 1, ''fr''), (Some 1, ''fr'')]))"
  by (simp add: is_empty_def get_translated_fields_def placeholder_config_def
                cached_translations_def map_filter_simps relabelled_record_def
                zero_world_def zero_row_def zero_keyed_def row_values_def
                is_modified_def get_field_values_def py_not_def save_def model_save_def
                save_translations_def save_translation_def
                save_base_def db_write_def cache_translation_def Let_def)

theorem save_twice_writes_key_zero_twice_witness:
  "needs_save placeholder_config (zero_keyed\<lparr>language_code := ''fr''\<rparr>) \<and>
   (\<exists>self1 w1 self2 w2.
      save placeholder_config 1 relabelled_record zero_world = (None, self1, w1) \<and>
      save placeholder_config 1 self1 w1 = (None, self2, w2) \<and>
      db_saves (trace w1) = [(Some 1, ''fr'')] \<and>
      db_saves (trace w2) = [(Some 1, ''fr''), (Some 1, ''fr'')])"
proof -
  note th = save_twice_writes_key_zero_twice
  from th have m: "needs_save placeholder_config (zero_keyed\<lparr>language_code := ''fr''\<rparr>)"
    by (simp add: needs_save_def)
  obtain e1 self1 w1 where s1: "save placeholder_config 1 relabelled_record zero_world = (e1, self1, w1)"
    by (cases "save placeholder_config 1 relabelled_record zero_world") auto
  obtain e2 self2 w2 where s2: "save placeholder_config 1 self1 w1 = (e2, self2, w2)"
    by (cases "save placeholder_config 1 self1 w1") auto
  from th s1 s2 have "e1 = None \<and> e2 = None \<and> db_saves (trace w1) = [(Some 1, ''fr'')] \<and>
      db_saves (trace w2) = [(Some 1, ''fr''), (Some 1, ''fr'')]"
    by simp
  with s1 s2 m show ?thesis by blast
qed

text \<open>
  C8. When the instance cache has an entry for the language, \<^verbatim>\<open>has_translation\<close> answers
  from it and queries nothing: the answer is whether the entry is a translation and not a
  marker, and the instance and the world, trace included, are unchanged. Otherwise, on a
  configured model, it answers with a resolution without fallback and without
  auto-create: true when that returns a translation, false when that raises
  \<^verbatim>\<open>DoesNotExist\<close>, and these are the only outcomes; the instance and the world are
  left as the resolution left them. In the scenario (only English saved, German falls
  back to English) the resolution of German with fallback returns the English translation
  with the title Hello, and after it \<^verbatim>\<open>has_translation\<close> is false for German and true
  for English.
\<close>

theorem has_translation_answers:
  "(map_of (translations_cache self) (case lang of None \<Rightarrow> current_language self | Some l \<Rightarrow> l)
      = Some entry \<longrightarrow>
      has_translation c self lang w = (Inr (entry \<noteq> None), self, w)) \<and>
   (configured c \<and>
    map_of (translations_cache self) (case lang of None \<Rightarrow> current_language self | Some l \<Rightarrow> l)
      = None \<longrightarrow>
      (\<exists>r self1 w1.
         get_translated_model c self
           (Some (case lang of None \<Rightarrow> current_language self | Some l \<Rightarrow> l)) False False w
           = (r, self1, w1) \<and>
         (case r of
            Inr obj \<Rightarrow> has_translation c self lang w = (Inr True, self1, w1)
          | Inl e \<Rightarrow> (\<exists>l. e = DoesNotExist l None) \<and>
                     has_translation c self lang w = (Inr False, self1, w1)))) \<and>
   (\<exists>obj r3 w3.
      scenario_resolved = (Inr obj, r3, w3) \<and>
      language_code obj = ''en'' \<and> translated_values obj = [''Hello''] \<and>
      fst (has_translation scenario_config r3 (Some ''de'') w3) = Inr False \<and>
      fst (has_translation scenario_config r3 (Some ''en'') w3) = Inr True)"
  (is "?P1 \<and> ?P2 \<and> ?P3")
proof -
  let ?key = "case lang of None \<Rightarrow> current_language self | Some l \<Rightarrow> l"
  have p1: ?P1
    by (simp add: has_translation_def Let_def)
  have p2: ?P2
  proof
    assume a: "configured c \<and> map_of (translations_cache self) ?key = None"
    then have cfg: "\<not> (translations_model c = None \<or> py_not_str (translations_field c))"
      by (simp add: configured_def)
    let ?lc = "requested_language self (Some ?key)"
    obtain r0 self0 w0 where look: "cache_lookup self ?lc w = (r0, self0, w0)"
      by (cases "cache_lookup self ?lc w") auto
    show "\<exists>r self1 w1.
         get_translated_model c self (Some ?key) False False w = (r, self1, w1) \<and>
         (case r of
            Inr obj \<Rightarrow> has_translation c self lang w = (Inr True, self1, w1)
          | Inl e \<Rightarrow> (\<exists>l. e = DoesNotExist l None) \<and>
                     has_translation c self lang w = (Inr False, self1, w1))"
    proof (cases r0)
      case None
      with cfg look a show ?thesis
        by (simp add: gtm_nofb has_translation_def Let_def)
    next
      case (Some obj)
      with cfg look a show ?thesis
        by (simp add: gtm_nofb has_translation_def Let_def)
    qed
  qed
  have p3: ?P3
    by (simp add: scenario_resolved_eq has_translation_def english_saved_def Let_def)
  from p1 p2 p3 show ?thesis by (intro conjI)
qed

theorem has_translation_answers_witness:
  "configured scenario_config \<and>
   map_of (translations_cache stored_record) ''fr'' = None \<and>
   (\<exists>obj r3 w3.
      scenario_resolved = (Inr obj, r3, w3) \<and>
      map_of (translations_cache r3) ''de'' = Some None \<and>
      has_translation scenario_config r3 (Some ''de'') w3 = (Inr False, r3, w3) \<and>
      map_of (translations_cache r3) ''en'' = Some (Some obj) \<and>
      has_translation scenario_config r3 (Some ''en'') w3 = (Inr True, r3, w3)) \<and>
   (\<exists>obj self1 w1.
      get_translated_model scenario_config stored_record (Some ''fr'') False False stored_world
        = (Inr obj, self1, w1) \<and>
      has_translation scenario_config stored_record (Some ''fr'') stored_world
        = (Inr True, self1, w1) \<and>
      trace w1 = [CacheSet (Some 1) ''fr'', DbGet (Some 1) ''fr'', CacheGet (Some 1) ''fr''])"
proof -
  note th = has_translation_answers
  have h: "configured scenario_config"
    by (simp add: configured_def scenario_config_def py_not_str_def)
  have m: "map_of (translations_cache stored_record) ''fr'' = None"
    by (simp add: stored_record_def)
  obtain obj r3 w3 where sc: "scenario_resolved = (Inr obj, r3, w3)"
    and de: "map_of (translations_cache r3) ''de'' = Some None"
    and en: "map_of (translations_cache r3) ''en'' = Some (Some obj)"
    by (simp add: scenario_resolved_eq)
  from th [of r3 "Some ''de''" None scenario_config w3] de
  have a: "has_translation scenario_config r3 (Some ''de'') w3 = (Inr False, r3, w3)"
    by simp
  from th [of r3 "Some ''en''" "Some obj" scenario_config w3] en
  have b: "has_translation scenario_config r3 (Some ''en'') w3 = (Inr True, r3, w3)"
    by simp
  have g: "\<exists>obj self1 w1.
      get_translated_model scenario_config stored_record (Some ''fr'') False False stored_world
        = (Inr obj, self1, w1) \<and>
      trace w1 = [CacheSet (Some 1) ''fr'', DbGet (Some 1) ''fr'', CacheGet (Some 1) ''fr'']"
    by (simp add: gtm_nofb scenario_config_def requested_language_def cache_lookup_def
                  get_cached_translation_def accessor_get_def db_get_def db_filter_def
                  cache_translation_def py_not_str_def Let_def stored_record_def
                  stored_world_def row_values_def)
  then obtain obj2 self1 w1 where
    g1: "get_translated_model scenario_config stored_record (Some ''fr'') False False stored_world
           = (Inr obj2, self1, w1)"
    and g2: "trace w1 = [CacheSet (Some 1) ''fr'', DbGet (Some 1) ''fr'', CacheGet (Some 1) ''fr'']"
    by blast
  from th [of stored_record "Some ''fr''" None scenario_config stored_world] h m g1
  have c: "has_translation scenario_config stored_record (Some ''fr'') stored_world
             = (Inr True, self1, w1)"
    by simp
  from h m sc de en a b g1 g2 c show ?thesis by blast
qed

text \<open>
  C1, as stated, fails: with no row for German, a row for English, and German falling
  back to English, a record whose instance cache holds an unsaved German translation
  resolves German, with fallback, to that translation; no marker is stored, and the
  resolution without fallback returns it too instead of raising.
\<close>

theorem fallback_resolution_counterexample:
  "fallback scenario_config ''de'' = ''en'' \<and>
   db_get (pk drafting_record) ''de'' (rows saved_world) = None \<and>
   db_get (pk drafting_record) ''en'' (rows saved_world) \<noteq> None \<and>
   get_translated_model scenario_config drafting_record (Some ''de'') True False saved_world
     = (Inr german_draft, drafting_record, saved_world) \<and>
   language_code german_draft = ''de'' \<and>
   map_of (translations_cache drafting_record) ''de'' \<noteq> Some None \<and>
   get_translated_model scenario_config drafting_record (Some ''de'') False False saved_world
     = (Inr german_draft, drafting_record, saved_world)"
  by (simp add: gtm_fb gtm_nofb scenario_config_def drafting_record_def saved_world_def
                german_draft_def requested_language_def cache_lookup_def py_not_str_def
                db_get_def db_filter_def Let_def)

text \<open>
  C1, amended. Let the model be configured, the record be persisted, \<open>l\<close> a language whose
  fallback \<open>f\<close> differs from it, the instance cache hold no translation for \<open>l\<close>, the
  shared cache hold no entry for the record and \<open>l\<close>, and the table hold no row for the
  record and \<open>l\<close>.

  \<^item> When the instance cache holds no marker for \<open>f\<close> and the table holds a row for the
    record and \<open>f\<close>, the resolution of \<open>l\<close> with fallback returns the translation of \<open>f\<close>
    (the entry of the instance cache for \<open>f\<close>; the values of the row when neither cache
    had \<open>f\<close>) and leaves a marker for \<open>l\<close> in the instance cache, and the resolution of
    \<open>l\<close> without fallback that follows raises \<^verbatim>\<open>DoesNotExist\<close> and changes nothing.
  \<^item> A marker for \<open>l\<close> never satisfies a resolution without fallback: whatever the
    instance and the world, it raises \<^verbatim>\<open>DoesNotExist\<close> and changes nothing.
  \<^item> One hop only: when \<open>f\<close> has no translation either, the resolution of \<open>l\<close> with
    fallback raises \<^verbatim>\<open>DoesNotExist\<close> for \<open>l\<close>, naming \<open>f\<close> as the fallback that was
    tried. It has marked \<open>l\<close> and has looked up \<open>l\<close> and \<open>f\<close> and nothing else, whatever
    the fallback of \<open>f\<close> is and whatever translations exist for it.
  \<^item> One hop only: the resolution of \<open>l\<close> reads the fallback table at \<open>l\<close> alone. With
    any other table that has the same fallback for \<open>l\<close> it returns the same result, the
    same instance and the same world.
\<close>

theorem fallback_resolution:
  assumes "configured c" and "l \<noteq> []" and "fallback c l \<noteq> []" and "fallback c l \<noteq> l"
    and "\<not> adding self"
    and "map_of (translations_cache self) l = None \<or> map_of (translations_cache self) l = Some None"
    and "shared_cache w (pk self, l) = None"
    and "db_get (pk self) l (rows w) = None"
  shows "(\<forall>r. map_of (translations_cache self) (fallback c l) \<noteq> Some None \<and>
              db_get (pk self) (fallback c l) (rows w) = Some r \<longrightarrow>
           (\<exists>obj self' w'.
              get_translated_model c self (Some l) True False w = (Inr obj, self', w') \<and>
              map_of (translations_cache self') l = Some None \<and>
              map_of (translations_cache self') (fallback c l) = Some (Some obj) \<and>
              (map_of (translations_cache self) (fallback c l) = None \<and>
               shared_cache w (pk self, fallback c l) = None \<longrightarrow>
                 get_field_values obj = row_values r) \<and>
              get_translated_model c self' (Some l) False False w'
                = (Inl (DoesNotExist l None), self', w'))) \<and>
         (\<forall>s v. map_of (translations_cache s) l = Some None \<longrightarrow>
            get_translated_model c s (Some l) False False v = (Inl (DoesNotExist l None), s, v)) \<and>
         ((map_of (translations_cache self) (fallback c l) = None \<or>
           map_of (translations_cache self) (fallback c l) = Some None) \<and>
          shared_cache w (pk self, fallback c l) = None \<and>
          db_get (pk self) (fallback c l) (rows w) = None \<longrightarrow>
            get_translated_model c self (Some l) True False w
              = (Inl (DoesNotExist l (Some (fallback c l))), cache_put l None self,
                 w\<lparr>trace :=
                     (if map_of (translations_cache self) (fallback c l) = None
                      then [DbGet (pk self) (fallback c l), CacheGet (pk self) (fallback c l)]
                      else []) @
                     (if map_of (translations_cache self) l = None
                      then [DbGet (pk self) l, CacheGet (pk self) l] else []) @
                     trace w\<rparr>)) \<and>
         (\<forall>c'. translations_model c' = translations_model c \<and>
               translations_field c' = translations_field c \<and>
               fallback c' l = fallback c l \<longrightarrow>
            get_translated_model c' self (Some l) True False w
              = get_translated_model c self (Some l) True False w)"
  (is "?P1 \<and> ?P2 \<and> ?P3 \<and> ?P4")
proof -
  let ?f = "fallback c l"
  let ?s = "cache_put l None self"
  let ?w0 = "w\<lparr>trace := (if map_of (translations_cache self) l = None
                          then [DbGet (pk self) l, CacheGet (pk self) l] else []) @ trace w\<rparr>"
  from assms(1) have cfg: "\<not> (translations_model c = None \<or> py_not_str (translations_field c))"
    by (simp add: configured_def)
  from assms(2) have rl: "\<And>s. requested_language s (Some l) = l"
    by (simp add: requested_language_def)
  from assms(3) have rf: "\<And>s. requested_language s (Some ?f) = ?f"
    by (simp add: requested_language_def)
  have look: "cache_lookup self l w = (None, self, ?w0)"
    by (rule cache_lookup_miss [OF assms(5) assms(6) assms(7) assms(8)])
  have ad: "\<not> adding ?s" using assms(5) by simp
  have cf: "map_of (translations_cache ?s) ?f = map_of (translations_cache self) ?f"
    using assms(4) by (simp add: map_of_cache_put)
  have p1: ?P1
  proof (intro allI impI)
    fix r
    assume h: "map_of (translations_cache self) ?f \<noteq> Some None \<and>
               db_get (pk self) ?f (rows w) = Some r"
    have nm: "map_of (translations_cache ?s) ?f \<noteq> Some None"
      using h cf by simp
    have row: "db_get (pk ?s) ?f (rows ?w0) = Some r"
      using h by simp
    from resolve_present [OF assms(1) assms(3) ad nm row]
    obtain obj s' v' where
      rec: "get_translated_model c ?s (Some ?f) False False ?w0 = (Inr obj, s', v')"
      and held: "map_of (translations_cache s') ?f = Some (Some obj)"
      and other: "\<forall>k. k \<noteq> ?f \<longrightarrow> map_of (translations_cache s') k = map_of (translations_cache ?s) k"
      and vals: "map_of (translations_cache ?s) ?f = None \<and> shared_cache ?w0 (pk ?s, ?f) = None \<longrightarrow>
                   get_field_values obj = row_values r"
      by blast
    have first: "get_translated_model c self (Some l) True False w = (Inr obj, s', v')"
      using cfg look assms(4) rec by (simp add: gtm_fb rl Let_def)
    have marker: "map_of (translations_cache s') l = Some None"
      using other assms(4) by (simp add: map_of_cache_put)
    have vals': "map_of (translations_cache self) ?f = None \<and> shared_cache w (pk self, ?f) = None \<longrightarrow>
                   get_field_values obj = row_values r"
      using vals cf by simp
    have second: "get_translated_model c s' (Some l) False False v' = (Inl (DoesNotExist l None), s', v')"
      using cfg by (simp add: gtm_nofb rl Let_def cache_lookup_marker [OF marker])
    from first marker held vals' second
    show "\<exists>obj self' w'.
              get_translated_model c self (Some l) True False w = (Inr obj, self', w') \<and>
              map_of (translations_cache self') l = Some None \<and>
              map_of (translations_cache self') ?f = Some (Some obj) \<and>
              (map_of (translations_cache self) ?f = None \<and>
               shared_cache w (pk self, ?f) = None \<longrightarrow>
                 get_field_values obj = row_values r) \<and>
              get_translated_model c self' (Some l) False False w'
                = (Inl (DoesNotExist l None), self', w')"
      by blast
  qed
  have p2: ?P2
  proof (intro allI impI)
    fix s :: translatable and v :: world
    assume m: "map_of (translations_cache s) l = Some None"
    show "get_translated_model c s (Some l) False False v = (Inl (DoesNotExist l None), s, v)"
      using cfg by (simp add: gtm_nofb rl Let_def cache_lookup_marker [OF m])
  qed
  have p3: ?P3
  proof (intro impI)
    assume h: "(map_of (translations_cache self) ?f = None \<or>
                map_of (translations_cache self) ?f = Some None) \<and>
               shared_cache w (pk self, ?f) = None \<and>
               db_get (pk self) ?f (rows w) = None"
    have c2: "map_of (translations_cache ?s) ?f = None \<or> map_of (translations_cache ?s) ?f = Some None"
      using h cf by simp
    have sc2: "shared_cache ?w0 (pk ?s, ?f) = None" using h by simp
    have db2: "db_get (pk ?s) ?f (rows ?w0) = None" using h by simp
    note look2 = cache_lookup_miss [OF ad c2 sc2 db2]
    have rec: "get_translated_model c ?s (Some ?f) False False ?w0
                 = (Inl (DoesNotExist ?f None), ?s,
                    ?w0\<lparr>trace := (if map_of (translations_cache ?s) ?f = None
                                   then [DbGet (pk ?s) ?f, CacheGet (pk ?s) ?f] else [])
                                  @ trace ?w0\<rparr>)"
      using cfg by (simp only: gtm_nofb rf Let_def look2 if_False prod.case option.case)
    show "get_translated_model c self (Some l) True False w
              = (Inl (DoesNotExist l (Some ?f)), ?s,
                 w\<lparr>trace :=
                     (if map_of (translations_cache self) ?f = None
                      then [DbGet (pk self) ?f, CacheGet (pk self) ?f]
                      else []) @
                     (if map_of (translations_cache self) l = None
                      then [DbGet (pk self) l, CacheGet (pk self) l] else []) @
                     trace w\<rparr>)"
      using cfg assms(4)
      by (simp add: gtm_fb rl Let_def look rec cf)
  qed
  have p4: ?P4
  proof (intro allI impI)
    fix c' :: config
    assume h: "translations_model c' = translations_model c \<and>
               translations_field c' = translations_field c \<and>
               fallback c' l = fallback c l"
    show "get_translated_model c' self (Some l) True False w
            = get_translated_model c self (Some l) True False w"
      by (rule gtm_one_hop) (simp_all add: h rl)
  qed
  from p1 p2 p3 p4 show ?thesis by (intro conjI)
qed

theorem fallback_resolution_witness:
  "configured scenario_config \<and> ''de'' \<noteq> [] \<and> fallback scenario_config ''de'' = ''en'' \<and>
   \<not> adding stored_record \<and> map_of (translations_cache stored_record) ''de'' = None \<and>
   shared_cache stored_world (pk stored_record, ''de'') = None \<and>
   db_get (pk stored_record) ''de'' (rows stored_world) = None \<and>
   db_get (pk stored_record) ''en'' (rows stored_world)
     = Some \<lparr>row_id = 3, row_language_code = ''en'', row_master_id = Some 1,
              row_fields = [''Hello'']\<rparr> \<and>
   (\<exists>obj self' w'.
      get_translated_model scenario_config stored_record (Some ''de'') True False stored_world
        = (Inr obj, self', w') \<and>
      map_of (translations_cache self') ''de'' = Some None \<and>
      map_of (translations_cache self') ''en'' = Some (Some obj) \<and>
      get_field_values obj = (Some 3, ''en'', Some 1, [''Hello'']) \<and>
      get_translated_model scenario_config self' (Some ''de'') False False w'
        = (Inl (DoesNotExist ''de'' None), self', w')) \<and>
   get_translated_model scenario_config (cache_put ''de'' None new_record) (Some ''de'')
       False False empty_world
     = (Inl (DoesNotExist ''de'' None), cache_put ''de'' None new_record, empty_world) \<and>
   configured chain_config \<and>
   fallback chain_config ''it'' = ''de'' \<and> fallback chain_config ''de'' = ''en'' \<and>
   map_of (translations_cache stored_record) ''it'' = None \<and>
   shared_cache stored_world (pk stored_record, ''it'') = None \<and>
   db_get (pk stored_record) ''it'' (rows stored_world) = None \<and>
   get_translated_model chain_config stored_record (Some ''it'') True False stored_world
     = (Inl (DoesNotExist ''it'' (Some ''de'')), cache_put ''it'' None stored_record,
        stored_world\<lparr>trace := [DbGet (Some 1) ''de'', CacheGet (Some 1) ''de'',
                               DbGet (Some 1) ''it'', CacheGet (Some 1) ''it'']\<rparr>) \<and>
   fallback cut_config ''it'' = ''de'' \<and> fallback cut_config ''de'' = ''de'' \<and>
   get_translated_model cut_config stored_record (Some ''it'') True False stored_world
     = get_translated_model chain_config stored_record (Some ''it'') True False stored_world"
proof -
  let ?r = "\<lparr>row_id = 3, row_language_code = ''en'', row_master_id = Some 1,
              row_fields = [''Hello'']\<rparr>"
  have h: "configured scenario_config"
    by (simp add: configured_def scenario_config_def py_not_str_def)
  have fb: "fallback scenario_config ''de'' = ''en''"
    by (simp add: scenario_config_def)
  have ad: "\<not> adding stored_record" and pk: "pk stored_record = Some 1"
    and c1: "map_of (translations_cache stored_record) ''de'' = None"
    and c2: "map_of (translations_cache stored_record) ''en'' = None"
    and c3: "map_of (translations_cache stored_record) ''it'' = None"
    by (simp_all add: stored_record_def)
  have sc: "shared_cache stored_world (pk stored_record, ''de'') = None"
    "shared_cache stored_world (pk stored_record, ''en'') = None"
    "shared_cache stored_world (pk stored_record, ''it'') = None"
    by (simp_all add: stored_world_def)
  have d1: "db_get (pk stored_record) ''de'' (rows stored_world) = None"
    and d2: "db_get (pk stored_record) ''en'' (rows stored_world) = Some ?r"
    and d3: "db_get (pk stored_record) ''it'' (rows stored_world) = None"
    by (simp_all add: db_get_def db_filter_def pk stored_world_def)
  have rv: "row_values ?r = (Some 3, ''en'', Some 1, [''Hello''])"
    by (simp add: row_values_def)
  have tr: "trace stored_world = []" by (simp add: stored_world_def)
  have mk: "map_of (translations_cache (cache_put ''de'' None new_record)) ''de'' = Some None"
    by (simp add: map_of_cache_put)
  have hc: "configured chain_config"
    by (simp add: configured_def chain_config_def py_not_str_def)
  have fc: "fallback chain_config ''it'' = ''de''" "fallback chain_config ''de'' = ''en''"
    by (simp_all add: chain_config_def)
  have fk: "fallback cut_config ''it'' = ''de''" "fallback cut_config ''de'' = ''de''"
    by (simp_all add: cut_config_def)
  have same: "translations_model cut_config = translations_model chain_config"
    "translations_field cut_config = translations_field chain_config"
    by (simp_all add: cut_config_def chain_config_def)
  have ne: "''de'' \<noteq> []" "''it'' \<noteq> []" by simp_all
  have f1: "fallback scenario_config ''de'' \<noteq> []" "fallback scenario_config ''de'' \<noteq> ''de''"
    by (simp_all add: fb)
  have f2: "fallback chain_config ''it'' \<noteq> []" "fallback chain_config ''it'' \<noteq> ''it''"
    by (simp_all add: fc)
  note th1 = fallback_resolution [OF h ne(1) f1 ad disjI1 [OF c1] sc(1) d1, unfolded fb]
  note th2 = fallback_resolution [OF hc ne(2) f2 ad disjI1 [OF c3] sc(3) d3, unfolded fc]
  from th1 have "map_of (translations_cache stored_record) ''en'' \<noteq> Some None \<and>
              db_get (pk stored_record) ''en'' (rows stored_world) = Some ?r \<longrightarrow>
           (\<exists>obj self' w'.
              get_translated_model scenario_config stored_record (Some ''de'') True False stored_world
                = (Inr obj, self', w') \<and>
              map_of (translations_cache self') ''de'' = Some None \<and>
              map_of (translations_cache self') ''en'' = Some (Some obj) \<and>
              (map_of (translations_cache stored_record) ''en'' = None \<and>
               shared_cache stored_world (pk stored_record, ''en'') = None \<longrightarrow>
                 get_field_values obj = row_values ?r) \<and>
              get_translated_model scenario_config self' (Some ''de'') False False w'
                = (Inl (DoesNotExist ''de'' None), self', w'))"
    by blast
  with c2 d2 sc(2) rv
  have a: "\<exists>obj self' w'.
      get_translated_model scenario_config stored_record (Some ''de'') True False stored_world
        = (Inr obj, self', w') \<and>
      map_of (translations_cache self') ''de'' = Some None \<and>
      map_of (translations_cache self') ''en'' = Some (Some obj) \<and>
      get_field_values obj = (Some 3, ''en'', Some 1, [''Hello'']) \<and>
      get_translated_model scenario_config self' (Some ''de'') False False w'
        = (Inl (DoesNotExist ''de'' None), self', w')"
    by auto
  from th1 have "\<forall>s v. map_of (translations_cache s) ''de'' = Some None \<longrightarrow>
            get_translated_model scenario_config s (Some ''de'') False False v
              = (Inl (DoesNotExist ''de'' None), s, v)"
    by blast
  with mk
  have b: "get_translated_model scenario_config (cache_put ''de'' None new_record) (Some ''de'')
       False False empty_world
     = (Inl (DoesNotExist ''de'' None), cache_put ''de'' None new_record, empty_world)"
    by blast
  from th2 have "(map_of (translations_cache stored_record) ''de'' = None \<or>
           map_of (translations_cache stored_record) ''de'' = Some None) \<and>
          shared_cache stored_world (pk stored_record, ''de'') = None \<and>
          db_get (pk stored_record) ''de'' (rows stored_world) = None \<longrightarrow>
            get_translated_model chain_config stored_record (Some ''it'') True False stored_world
              = (Inl (DoesNotExist ''it'' (Some ''de'')), cache_put ''it'' None stored_record,
                 stored_world\<lparr>trace :=
                     (if map_of (translations_cache stored_record) ''de'' = None
                      then [DbGet (pk stored_record) ''de'', CacheGet (pk stored_record) ''de'']
                      else []) @
                     (if map_of (translations_cache stored_record) ''it'' = None
                      then [DbGet (pk stored_record) ''it'', CacheGet (pk stored_record) ''it''] else []) @
                     trace stored_world\<rparr>)"
    by blast
  with c1 c3 sc(1) d1
  have "get_translated_model chain_config stored_record (Some ''it'') True False stored_world
              = (Inl (DoesNotExist ''it'' (Some ''de'')), cache_put ''it'' None stored_record,
                 stored_world\<lparr>trace :=
                      [DbGet (pk stored_record) ''de'', CacheGet (pk stored_record) ''de''] @
                      [DbGet (pk stored_record) ''it'', CacheGet (pk stored_record) ''it''] @
                     trace stored_world\<rparr>)"
    by simp
  then
  have c: "get_translated_model chain_config stored_record (Some ''it'') True False stored_world
     = (Inl (DoesNotExist ''it'' (Some ''de'')), cache_put ''it'' None stored_record,
        stored_world\<lparr>trace := [DbGet (Some 1) ''de'', CacheGet (Some 1) ''de'',
                               DbGet (Some 1) ''it'', CacheGet (Some 1) ''it'']\<rparr>)"
    by (simp add: pk tr)
  from th2 have "\<forall>c'. translations_model c' = translations_model chain_config \<and>
               translations_field c' = translations_field chain_config \<and>
               fallback c' ''it'' = ''de'' \<longrightarrow>
            get_translated_model c' stored_record (Some ''it'') True False stored_world
              = get_translated_model chain_config stored_record (Some ''it'') True False stored_world"
    by blast
  with same fk(1)
  have d: "get_translated_model cut_config stored_record (Some ''it'') True False stored_world
     = get_translated_model chain_config stored_record (Some ''it'') True False stored_world"
    by blast
  from h fb ad c1 sc(1) d1 d2 a b hc fc c3 sc(3) d3 c fk d show ?thesis
    by (intro conjI) simp_all
qed



end
